theory Spec2Isabelle
  imports Complex_Main
begin

section \<open>Strings\<close>

text \<open>
  Python strings are modelled as \<^typ>\<open>string\<close>, a list of 8-bit characters. The
  model therefore covers ASCII text; the Unicode behaviour of \<^verbatim>\<open>str.lower\<close>,
  \<^verbatim>\<open>str.strip\<close> and of the regex class \<^verbatim>\<open>\d\<close> on code points beyond ASCII is outside
  of it.
\<close>

text \<open>\<^verbatim>\<open>s.split(c)\<close> for a separator of one character.\<close>

fun split_on :: "char \<Rightarrow> string \<Rightarrow> string list" where
  "split_on c [] = [[]]"
| "split_on c (x # xs) =
     (if x = c then [] # split_on c xs
      else (case split_on c xs of [] \<Rightarrow> [[x]] | p # ps \<Rightarrow> (x # p) # ps))"

text \<open>\<^verbatim>\<open>s.split(c, 1)\<close>: at most one split, at the first occurrence.\<close>

definition split_once :: "char \<Rightarrow> string \<Rightarrow> string list" where
  "split_once c s =
     (if c \<in> set s then [takeWhile (\<lambda>x. x \<noteq> c) s, tl (dropWhile (\<lambda>x. x \<noteq> c) s)]
      else [s])"

definition is_upper_az :: "char \<Rightarrow> bool" where
  "is_upper_az c = (65 \<le> (of_char c :: nat) \<and> (of_char c :: nat) \<le> 90)"

definition is_digit :: "char \<Rightarrow> bool" where
  "is_digit c = (48 \<le> (of_char c :: nat) \<and> (of_char c :: nat) \<le> 57)"

text \<open>The ASCII characters that \<^verbatim>\<open>str.isspace\<close> accepts: 9 to 13, 28 to 31 and the blank.\<close>

definition is_space :: "char \<Rightarrow> bool" where
  "is_space c =
     ((9 \<le> (of_char c :: nat) \<and> (of_char c :: nat) \<le> 13) \<or>
      (28 \<le> (of_char c :: nat) \<and> (of_char c :: nat) \<le> 32))"

text \<open>\<^verbatim>\<open>s.lower()\<close> and \<^verbatim>\<open>s.strip()\<close>.\<close>

definition lower_char :: "char \<Rightarrow> char" where
  "lower_char c = (if is_upper_az c then char_of ((of_char c :: nat) + 32) else c)"

definition lower :: "string \<Rightarrow> string" where
  "lower s = map lower_char s"

definition strip :: "string \<Rightarrow> string" where
  "strip s = rev (dropWhile is_space (rev (dropWhile is_space s)))"

text \<open>\<^verbatim>\<open>s.startswith(p)\<close>.\<close>

definition startswith :: "string \<Rightarrow> string \<Rightarrow> bool" where
  "startswith s p = (take (length p) s = p)"

section \<open>Exceptions\<close>

text \<open>
  The exceptions that cross the functions modelled here: the package's own
  \<^verbatim>\<open>NotionError\<close> with its message, \<^verbatim>\<open>ValueError\<close> (raised by \<^verbatim>\<open>PurePath.match\<close>),
  \<^verbatim>\<open>PermissionError\<close> with the name of the file that the operating system refused to
  touch, and any other subclass of \<^verbatim>\<open>Exception\<close> that the HTTP layer may let through.
\<close>

datatype exn =
    NotionError string
  | ValueError string
  | PermissionError string
  | OtherException string

fun exn_str :: "exn \<Rightarrow> string" where
  "exn_str (NotionError m) = m"
| "exn_str (ValueError m) = m"
| "exn_str (PermissionError f) = ''[Errno 13] Permission denied: '' @ [CHR 0x27] @ f @ [CHR 0x27]"
| "exn_str (OtherException m) = m"

section \<open>Identifier patterns (\<^verbatim>\<open>golden_thread/__init__.py\<close>)\<close>

text \<open>
  The regular expressions of \<^verbatim>\<open>ID_PATTERNS\<close> use literals, the class \<^verbatim>\<open>[A-Z]\<close> with
  \<^verbatim>\<open>+\<close>, and \<^verbatim>\<open>\d\<close> with a fixed count; they are kept as syntax trees. A pattern is
  a sequence of items between \<^verbatim>\<open>^\<close> and \<^verbatim>\<open>$\<close>.
\<close>

datatype rx_atom = Lit char | UpperAZ | Digit

datatype rx_item = One rx_atom | OneOrMore rx_atom | Times nat rx_atom

fun atom_matches :: "rx_atom \<Rightarrow> char \<Rightarrow> bool" where
  "atom_matches (Lit l) c = (c = l)"
| "atom_matches UpperAZ c = is_upper_az c"
| "atom_matches Digit c = is_digit c"

text \<open>
  \<^verbatim>\<open>re.match\<close> of an anchored pattern. Without \<^verbatim>\<open>re.MULTILINE\<close> the final \<^verbatim>\<open>$\<close> matches at
  the end of the string and also just before a newline that ends the string.
\<close>

fun re_match :: "rx_item list \<Rightarrow> string \<Rightarrow> bool" where
  "re_match [] s = (s = [] \<or> s = [CHR 0x0A])"
| "re_match (One a # r) [] = False"
| "re_match (One a # r) (c # cs) = (atom_matches a c \<and> re_match r cs)"
| "re_match (OneOrMore a # r) [] = False"
| "re_match (OneOrMore a # r) (c # cs) =
     (atom_matches a c \<and> (re_match (OneOrMore a # r) cs \<or> re_match r cs))"
| "re_match (Times 0 a # r) s = re_match r s"
| "re_match (Times (Suc n) a # r) [] = False"
| "re_match (Times (Suc n) a # r) (c # cs) = (atom_matches a c \<and> re_match (Times n a # r) cs)"

text \<open>The pattern \<^verbatim>\<open>^T-[A-Z]+-\d{3}$\<close> for a type prefix \<^verbatim>\<open>T\<close>.\<close>

definition id_pattern :: "string \<Rightarrow> rx_item list" where
  "id_pattern t =
     map (\<lambda>c. One (Lit c)) t @
     [One (Lit CHR ''-''), OneOrMore UpperAZ, One (Lit CHR ''-''), Times 3 Digit]"

definition ID_PATTERNS :: "(string \<times> rx_item list) list" where
  "ID_PATTERNS =
     [(''BR'', id_pattern ''BR''),
      (''UR'', id_pattern ''UR''),
      (''FEAT'', id_pattern ''FEAT''),
      (''CF'', id_pattern ''CF''),
      (''FR'', id_pattern ''FR''),
      (''NFR'', id_pattern ''NFR''),
      (''TSR'', id_pattern ''TSR''),
      (''TCR'', id_pattern ''TCR''),
      (''V'', id_pattern ''V''),
      (''TC'', id_pattern ''TC''),
      (''EA'', id_pattern ''EA''),
      (''IF'', id_pattern ''IF''),
      (''EVT'', id_pattern ''EVT''),
      (''GQL'', id_pattern ''GQL''),
      (''RPC'', id_pattern ''RPC'')]"

text \<open>\<^verbatim>\<open>REGISTRY_TYPES\<close>, the fixed vocabulary of identifier types.\<close>

definition REGISTRY_TYPES :: "string list" where
  "REGISTRY_TYPES =
     [''BR'', ''UR'', ''FEAT'', ''CF'', ''FR'', ''NFR'', ''TSR'', ''TCR'', ''V'', ''TC'',
      ''EA'', ''IF'', ''EVT'', ''GQL'', ''RPC'']"

section \<open>Registry accessor: identifiers (\<^verbatim>\<open>notion/registry.py\<close>)\<close>

text \<open>\<^verbatim>\<open>_extract_id_type\<close>: the part before the first \<^verbatim>\<open>-\<close>, when there is a \<^verbatim>\<open>-\<close>.\<close>

definition extract_id_type :: "string \<Rightarrow> string option" where
  "extract_id_type id_str =
     (let parts = split_on CHR ''-'' id_str
      in if length parts < 2 then None else Some (hd parts))"

text \<open>
  \<^verbatim>\<open>validate_id_format\<close>. An empty type prefix is falsy in Python and gives False, as
  does a type without a pattern.
\<close>

definition validate_id_format :: "string \<Rightarrow> bool" where
  "validate_id_format id_str =
     (case extract_id_type id_str of
        None \<Rightarrow> False
      | Some id_type \<Rightarrow>
          if id_type = [] then False
          else (case map_of ID_PATTERNS id_type of
                  None \<Rightarrow> False
                | Some pattern \<Rightarrow> re_match pattern id_str))"

section \<open>Registry accessor: entries (\<^verbatim>\<open>notion/registry.py\<close>)\<close>

text \<open>
  A page returned by the remote API carries named properties. Each property object has
  one of the shapes the accessor reads: a title or rich text (the \<^verbatim>\<open>plain_text\<close> of its
  items), a select (the \<^verbatim>\<open>name\<close> of the selected option, if any), a relation (the
  \<^verbatim>\<open>id\<close> of each related page), or some other shape.
\<close>

datatype notion_prop =
    PTitle "string list"
  | PRichText "string list"
  | PSelect "string option"
  | PRelation "string list"
  | POther

record page =
  properties :: "string \<rightharpoonup> notion_prop"

record registry_entry =
  entry_id :: string
  title :: string
  status :: string
  entry_properties :: "string \<rightharpoonup> notion_prop"
  related_ids :: "string \<rightharpoonup> string list"

text \<open>
  \<^verbatim>\<open>_extract_property(prop, prop_type)\<close>, one function for each \<^verbatim>\<open>prop_type\<close> the accessor
  passes. A missing property, a property of another shape and an empty item list all
  give the empty value.
\<close>

definition extract_title :: "notion_prop option \<Rightarrow> string" where
  "extract_title prop = (case prop of Some (PTitle (x # _)) \<Rightarrow> x | _ \<Rightarrow> [])"

definition extract_rich_text :: "notion_prop option \<Rightarrow> string" where
  "extract_rich_text prop = (case prop of Some (PRichText (x # _)) \<Rightarrow> x | _ \<Rightarrow> [])"

definition extract_select :: "notion_prop option \<Rightarrow> string" where
  "extract_select prop = (case prop of Some (PSelect (Some n)) \<Rightarrow> n | _ \<Rightarrow> [])"

definition extract_relation :: "notion_prop option \<Rightarrow> string list" where
  "extract_relation prop = (case prop of Some (PRelation rel) \<Rightarrow> rel | _ \<Rightarrow> [])"

text \<open>Python's \<^verbatim>\<open>a or b\<close> on strings: the first operand unless it is empty.\<close>

definition str_or :: "string \<Rightarrow> string \<Rightarrow> string" where
  "str_or a b = (if a \<noteq> [] then a else b)"

definition RELATION_PROPERTIES :: "(string \<times> string list) list" where
  "RELATION_PROPERTIES =
     [(''FEAT'', [''BR'', ''UR'', ''FR'', ''NFR'', ''TSR'', ''TCR'', ''CF'']),
      (''FR'', [''V'', ''FEAT'']),
      (''NFR'', [''V'', ''FEAT'']),
      (''TSR'', [''V'', ''FEAT'']),
      (''TCR'', [''V'', ''FEAT'']),
      (''V'', [''TC'', ''FR'', ''NFR'', ''TSR'', ''TCR'']),
      (''TC'', [''EA'', ''V''])]"

text \<open>
  The inner loop of \<^verbatim>\<open>_extract_related_ids\<close>: the first property name that is present
  and holds a non-empty relation.
\<close>

fun first_relation :: "(string \<rightharpoonup> notion_prop) \<Rightarrow> string list \<Rightarrow> string list option" where
  "first_relation props [] = None"
| "first_relation props (prop_name # rest) =
     (case props prop_name of
        None \<Rightarrow> first_relation props rest
      | Some p \<Rightarrow>
          (let rel_ids = extract_relation (Some p)
           in if rel_ids \<noteq> [] then Some rel_ids else first_relation props rest))"

definition extract_related_ids ::
    "(string \<rightharpoonup> notion_prop) \<Rightarrow> string \<Rightarrow> (string \<rightharpoonup> string list)" where
  "extract_related_ids props id_type =
     foldl (\<lambda>related rel_type.
              case first_relation props [rel_type @ ''-IDs'', rel_type @ '' IDs'', rel_type] of
                None \<Rightarrow> related
              | Some rel_ids \<Rightarrow> related(rel_type \<mapsto> rel_ids))
           Map.empty
           (case map_of RELATION_PROPERTIES id_type of None \<Rightarrow> [] | Some ts \<Rightarrow> ts)"

definition parse_entry :: "page \<Rightarrow> string \<Rightarrow> registry_entry" where
  "parse_entry pg id_type =
     (let props = properties pg
      in \<lparr>entry_id = str_or (extract_title (props ''ID'')) (extract_title (props ''Name'')),
          title = str_or (extract_rich_text (props ''Title''))
                    (str_or (extract_rich_text (props ''Description''))
                       (extract_rich_text (props ''Name''))),
          status = str_or (extract_select (props ''Status'')) (extract_select (props ''State'')),
          entry_properties = props,
          related_ids = extract_related_ids props id_type\<rparr>)"

text \<open>
  The accessor holds the mapping from identifier type to collection and the client.
  The client's \<^verbatim>\<open>search_database\<close> is the query capability handed to the accessor: for
  a collection and a filter it returns the pages found or raises. The two filters that
  \<^verbatim>\<open>get_entry\<close> builds are \<^verbatim>\<open>ID equals\<close> and \<^verbatim>\<open>Name contains\<close>.
\<close>

datatype db_filter = IdEquals string | NameContains string

record registry =
  database_ids :: "string \<rightharpoonup> string"
  search_database :: "string \<Rightarrow> db_filter \<Rightarrow> exn + page list"

definition get_entry :: "registry \<Rightarrow> string \<Rightarrow> exn + registry_entry option" where
  "get_entry reg id_str =
     (case extract_id_type id_str of
        None \<Rightarrow> Inl (NotionError (''Invalid ID format: '' @ id_str))
      | Some id_type \<Rightarrow>
          if id_type = [] then Inl (NotionError (''Invalid ID format: '' @ id_str))
          else
            (case database_ids reg id_type of
               None \<Rightarrow>
                 Inl (NotionError (''Unknown ID type: '' @ id_type @ [CHR 0x0A] @
                        ''Please add '' @ id_type @ '' database ID to configuration.''))
             | Some db_id \<Rightarrow>
                 if db_id = [] then
                   Inl (NotionError (''Unknown ID type: '' @ id_type @ [CHR 0x0A] @
                          ''Please add '' @ id_type @ '' database ID to configuration.''))
                 else
                   (case (case search_database reg db_id (IdEquals id_str) of
                            Inl (NotionError _) \<Rightarrow> search_database reg db_id (NameContains id_str)
                          | r \<Rightarrow> r) of
                      Inl e \<Rightarrow> Inl e
                    | Inr [] \<Rightarrow> Inr None
                    | Inr (pg # _) \<Rightarrow> Inr (Some (parse_entry pg id_type)))))"

section \<open>Registry accessor: chain validation\<close>

text \<open>\<^verbatim>\<open>related_ids.get(k)\<close> read as a condition, and \<^verbatim>\<open>related_ids.get(k, [])\<close>.\<close>

definition linked :: "registry_entry \<Rightarrow> string \<Rightarrow> bool" where
  "linked e k = (case related_ids e k of None \<Rightarrow> False | Some l \<Rightarrow> l \<noteq> [])"

definition links :: "registry_entry \<Rightarrow> string \<Rightarrow> string list" where
  "links e k = (case related_ids e k of None \<Rightarrow> [] | Some l \<Rightarrow> l)"

record chain_result =
  chain_valid :: bool
  chain_errors :: "string list"
  chain_warnings :: "string list"

definition is_verified :: "registry_entry \<Rightarrow> bool" where
  "is_verified v = (status v \<noteq> [] \<and> lower (status v) = ''verified'')"

text \<open>The two checks made on a resolved Verification, in the order of the source.\<close>

definition verification_errors :: "string \<Rightarrow> registry_entry \<Rightarrow> string list" where
  "verification_errors v_id v =
     (if \<not> linked v ''TC'' then [''MISSING_TC: '' @ v_id @ '' has no Test Case''] else []) @
     (if is_verified v then
        (if \<not> linked v ''EA''
         then [''MISSING_EA: '' @ v_id @ '' is Verified but has no Evidence Artifact'']
         else [])
      else [])"

text \<open>
  The loop over the Verification ids of one Requirement. The list of errors is threaded
  through; an exception of \<^verbatim>\<open>get_entry\<close> is not caught and ends the traversal.
\<close>

fun check_verifications :: "registry \<Rightarrow> string list \<Rightarrow> string list \<Rightarrow> exn + string list" where
  "check_verifications reg [] errors = Inr errors"
| "check_verifications reg (v_id # rest) errors =
     (case get_entry reg v_id of
        Inl e \<Rightarrow> Inl e
      | Inr None \<Rightarrow>
          check_verifications reg rest (errors @ [''INVALID_ID: '' @ v_id @ '' not found''])
      | Inr (Some v) \<Rightarrow>
          check_verifications reg rest (errors @ verification_errors v_id v))"

text \<open>
  The loop over the requirement links. The source iterates over the four requirement
  types and, within each, over the ids linked under it; the ids are passed here in that
  order.
\<close>

fun check_requirements :: "registry \<Rightarrow> string list \<Rightarrow> string list \<Rightarrow> exn + string list" where
  "check_requirements reg [] errors = Inr errors"
| "check_requirements reg (req_id # rest) errors =
     (case get_entry reg req_id of
        Inl e \<Rightarrow> Inl e
      | Inr None \<Rightarrow>
          check_requirements reg rest (errors @ [''INVALID_ID: '' @ req_id @ '' not found''])
      | Inr (Some req) \<Rightarrow>
          if \<not> linked req ''V'' then
            check_requirements reg rest
              (errors @ [''MISSING_V: '' @ req_id @ '' has no Verification''])
          else
            (case check_verifications reg (links req ''V'') errors of
               Inl e \<Rightarrow> Inl e
             | Inr errors' \<Rightarrow> check_requirements reg rest errors'))"

definition requirement_types :: "string list" where
  "requirement_types = [''FR'', ''NFR'', ''TSR'', ''TCR'']"

definition requirement_links :: "registry_entry \<Rightarrow> string list" where
  "requirement_links feat = concat (map (links feat) requirement_types)"

definition feature_errors :: "string \<Rightarrow> registry_entry \<Rightarrow> string list" where
  "feature_errors feat_id feat =
     (if \<not> linked feat ''BR''
      then [''MISSING_BR: '' @ feat_id @ '' has no Business Requirement''] else []) @
     (if \<not> linked feat ''UR''
      then [''MISSING_UR: '' @ feat_id @ '' has no User Requirement''] else []) @
     (if \<not> list_ex (linked feat) requirement_types
      then [''MISSING_FR: '' @ feat_id @ '' has no Functional Requirements''] else [])"

definition feature_warnings :: "string \<Rightarrow> registry_entry \<Rightarrow> string list" where
  "feature_warnings feat_id feat =
     (if \<not> linked feat ''CF'' then [''MISSING_CF: '' @ feat_id @ '' has no Call Flow''] else [])"

definition validate_traceability_chain :: "registry \<Rightarrow> string \<Rightarrow> exn + chain_result" where
  "validate_traceability_chain reg feat_id =
     (case get_entry reg feat_id of
        Inl e \<Rightarrow> Inl e
      | Inr None \<Rightarrow>
          Inr \<lparr>chain_valid = False,
               chain_errors = [''INVALID_ID: '' @ feat_id @ '' not found in Feature Registry''],
               chain_warnings = []\<rparr>
      | Inr (Some feat) \<Rightarrow>
          (case check_requirements reg (requirement_links feat) (feature_errors feat_id feat) of
             Inl e \<Rightarrow> Inl e
           | Inr errors \<Rightarrow>
               Inr \<lparr>chain_valid = (length errors = 0),
                    chain_errors = errors,
                    chain_warnings = feature_warnings feat_id feat\<rparr>))"


section \<open>Symbols and manifest (\<^verbatim>\<open>parsers/base.py\<close>, \<^verbatim>\<open>manifest.py\<close>)\<close>

record code_symbol =
  name :: string
  sym_type :: string
  file_path :: string
  line_start :: int
  line_end :: int
  parent :: "string option"

text \<open>\<^verbatim>\<open>CodeSymbol.qualified_path\<close>; an empty parent is falsy, like a missing one.\<close>

definition qualified_path :: "code_symbol \<Rightarrow> string" where
  "qualified_path s =
     (case parent s of
        None \<Rightarrow> file_path s @ ''::'' @ name s
      | Some p \<Rightarrow>
          if p = [] then file_path s @ ''::'' @ name s
          else file_path s @ ''::'' @ p @ ''.'' @ name s)"

record symbol_mapping =
  path :: string
  mapping_type :: string
  ids :: "string list"

record feature_mapping =
  feature_id :: string
  description :: string
  business_requirements :: "string list"
  user_requirements :: "string list"
  call_flows :: "string list"

record interface_mapping =
  interface_id :: string
  interface_type :: string
  endpoint :: "string option"
  operation :: "string option"
  interface_service :: "string option"
  interface_method :: "string option"
  requirements :: "string list"

record test_mapping =
  test_path :: string
  test_cases :: "string list"
  verifications :: "string list"

record exclusions =
  patterns :: "string list"
  excluded_symbols :: "string list"

text \<open>The manifest; its free-form \<^verbatim>\<open>metadata\<close> dictionary is read by no validator.\<close>

record manifest =
  service :: string
  version :: string
  symbols :: "symbol_mapping list"
  features :: "feature_mapping list"
  interfaces :: "interface_mapping list"
  tests :: "test_mapping list"
  manifest_exclusions :: exclusions

definition get_symbol_paths :: "manifest \<Rightarrow> string set" where
  "get_symbol_paths m = set (map path (symbols m))"

definition is_excluded :: "manifest \<Rightarrow> string \<Rightarrow> bool" where
  "is_excluded m symbol_path = (symbol_path \<in> set (excluded_symbols (manifest_exclusions m)))"

text \<open>
  \<^verbatim>\<open>get_all_referenced_ids\<close> builds a dictionary from type to a set of ids. It is kept
  here as an association list in insertion order, each set as the list of its distinct
  members in insertion order. Python leaves the iteration order of a set unspecified;
  what is proved below about the ids does not depend on their order.
\<close>

definition add_id :: "string \<Rightarrow> string \<Rightarrow> (string \<times> string list) list \<Rightarrow> (string \<times> string list) list" where
  "add_id id_type id_str d =
     (case map_of d id_type of
        None \<Rightarrow> d @ [(id_type, [id_str])]
      | Some _ \<Rightarrow>
          map (\<lambda>(k, v). if k = id_type then (k, if id_str \<in> set v then v else v @ [id_str])
                         else (k, v)) d)"

text \<open>\<^verbatim>\<open>id_str.split("-")[0]\<close>.\<close>

definition id_prefix :: "string \<Rightarrow> string" where
  "id_prefix id_str = hd (split_on CHR ''-'' id_str)"

definition add_symbol_ids :: "symbol_mapping \<Rightarrow> (string \<times> string list) list \<Rightarrow> (string \<times> string list) list" where
  "add_symbol_ids sm d = foldl (\<lambda>d id_str. add_id (id_prefix id_str) id_str d) d (ids sm)"

definition add_feature_ids :: "feature_mapping \<Rightarrow> (string \<times> string list) list \<Rightarrow> (string \<times> string list) list" where
  "add_feature_ids f d =
     (let d1 = add_id (id_prefix (feature_id f)) (feature_id f) d;
          d2 = foldl (\<lambda>d br_id. add_id ''BR'' br_id d) d1 (business_requirements f);
          d3 = foldl (\<lambda>d ur_id. add_id ''UR'' ur_id d) d2 (user_requirements f)
      in foldl (\<lambda>d cf_id. add_id ''CF'' cf_id d) d3 (call_flows f))"

definition add_interface_ids :: "interface_mapping \<Rightarrow> (string \<times> string list) list \<Rightarrow> (string \<times> string list) list" where
  "add_interface_ids i d =
     (let d1 = add_id (id_prefix (interface_id i)) (interface_id i) d
      in foldl (\<lambda>d req_id. add_id (id_prefix req_id) req_id d) d1 (requirements i))"

definition add_test_ids :: "test_mapping \<Rightarrow> (string \<times> string list) list \<Rightarrow> (string \<times> string list) list" where
  "add_test_ids t d =
     (let d1 = foldl (\<lambda>d tc_id. add_id ''TC'' tc_id d) d (test_cases t)
      in foldl (\<lambda>d v_id. add_id ''V'' v_id d) d1 (verifications t))"

definition get_all_referenced_ids :: "manifest \<Rightarrow> (string \<times> string list) list" where
  "get_all_referenced_ids m =
     (let d1 = foldl (\<lambda>d sm. add_symbol_ids sm d) [] (symbols m);
          d2 = foldl (\<lambda>d f. add_feature_ids f d) d1 (features m);
          d3 = foldl (\<lambda>d i. add_interface_ids i d) d2 (interfaces m)
      in foldl (\<lambda>d t. add_test_ids t d) d3 (tests m))"

section \<open>Glob matching of the standard library\<close>

text \<open>
  \<^verbatim>\<open>fnmatch.fnmatchcase(name, pat)\<close> for patterns made of literal characters, \<^verbatim>\<open>?\<close> and
  \<^verbatim>\<open>*\<close>: the pattern must match the whole name, \<^verbatim>\<open>?\<close> matches any one character and
  \<^verbatim>\<open>*\<close> any run of characters, the separator \<^verbatim>\<open>/\<close> included. Bracket expressions are not
  modelled. On POSIX \<^verbatim>\<open>fnmatch.fnmatch\<close> is the same function.
\<close>

fun fnmatchcase :: "string \<Rightarrow> string \<Rightarrow> bool" where
  "fnmatchcase [] [] = True"
| "fnmatchcase (c # cs) [] = False"
| "fnmatchcase [] (p # ps) = (p = CHR ''*'' \<and> fnmatchcase [] ps)"
| "fnmatchcase (c # cs) (p # ps) =
     (if p = CHR ''*'' then fnmatchcase (c # cs) ps \<or> fnmatchcase cs (p # ps)
      else (p = CHR ''?'' \<or> p = c) \<and> fnmatchcase cs ps)"

definition fnmatch :: "string \<Rightarrow> string \<Rightarrow> bool" where
  "fnmatch nm pat = fnmatchcase nm pat"

text \<open>
  \<^verbatim>\<open>PurePosixPath\<close> of Python 3.11. \<^verbatim>\<open>splitroot\<close> separates the root (\<^verbatim>\<open>/\<close>, or \<^verbatim>\<open>//\<close> for
  exactly two leading slashes) from the rest; \<^verbatim>\<open>parse_parts\<close> drops empty and \<^verbatim>\<open>.\<close>
  components and puts the root, when there is one, in front of the parts.
\<close>

definition splitroot :: "string \<Rightarrow> string \<times> string" where
  "splitroot part =
     (if part \<noteq> [] \<and> hd part = CHR ''/'' then
        (let stripped_part = dropWhile (\<lambda>c. c = CHR ''/'') part
         in if length part - length stripped_part = 2 then (''//'', stripped_part)
            else (''/'', stripped_part))
      else ([], part))"

definition parse_parts :: "string \<Rightarrow> string \<times> string list" where
  "parse_parts s =
     (let (root, rel) = splitroot s;
          parsed = filter (\<lambda>x. x \<noteq> [] \<and> x \<noteq> ''.'') (split_on CHR ''/'' rel)
      in (root, (if root \<noteq> [] then [root] else []) @ parsed))"

text \<open>
  \<^verbatim>\<open>PurePath.match(pattern)\<close>: a pattern without parts raises \<^verbatim>\<open>ValueError\<close>; a relative
  pattern is matched part by part from the right, each part with \<^verbatim>\<open>fnmatchcase\<close>; a
  rooted pattern must have as many parts as the path.
\<close>

definition path_match :: "string \<Rightarrow> string \<Rightarrow> exn + bool" where
  "path_match fp path_pattern =
     (let (pat_root, pat_parts) = parse_parts path_pattern;
          (root, parts) = parse_parts fp
      in if pat_parts = [] then Inl (ValueError ''empty pattern'')
         else if pat_root \<noteq> [] \<and> pat_root \<noteq> root then Inr False
         else if pat_root \<noteq> [] then
           (if length pat_parts \<noteq> length parts then Inr False
            else Inr (list_all (\<lambda>(part, pat). fnmatchcase part pat)
                        (zip (rev parts) (rev (tl pat_parts)))))
         else if length pat_parts > length parts then Inr False
         else Inr (list_all (\<lambda>(part, pat). fnmatchcase part pat)
                     (zip (rev parts) (rev pat_parts))))"

section \<open>Coverage validator (\<^verbatim>\<open>validators/coverage.py\<close>)\<close>

record coverage_error =
  cov_code :: string
  cov_message :: string
  cov_path :: string
  cov_ids :: "string list option"
  cov_file :: "string option"
  cov_line :: "int option"
  cov_type :: "string option"

record coverage_result =
  total_symbols :: nat
  mapped_symbols :: nat
  orphan_symbols :: "string list"
  invalid_mappings :: "string list"
  coverage_percentage :: real
  cov_errors :: "coverage_error list"

definition should_check_symbol :: "code_symbol \<Rightarrow> bool" where
  "should_check_symbol s =
     (if startswith (name s) ''_'' then False
      else if name s \<in> set [''__init__'', ''__str__'', ''__repr__'', ''__eq__'', ''__hash__'']
        then False
      else if startswith (name s) ''test_'' then False
      else if name s \<in> set [''setUp'', ''tearDown'', ''setUpClass'', ''tearDownClass'']
        then False
      else True)"

definition coverage_is_excluded :: "manifest \<Rightarrow> code_symbol \<Rightarrow> bool" where
  "coverage_is_excluded m s =
     (if is_excluded m (qualified_path s) then True
      else list_ex (\<lambda>pattern. fnmatch (file_path s) pattern) (patterns (manifest_exclusions m)))"

text \<open>The first loop of \<^verbatim>\<open>validate\<close>, over the manifest's symbol mappings.\<close>

definition orphan_manifest_error :: "symbol_mapping \<Rightarrow> coverage_error" where
  "orphan_manifest_error mp =
     \<lparr>cov_code = ''ORPHAN_MANIFEST'',
      cov_message = ''Manifest entry '' @ [CHR 0x27] @ path mp @ [CHR 0x27] @ '' has no matching code'',
      cov_path = path mp, cov_ids = Some (ids mp),
      cov_file = None, cov_line = None, cov_type = None\<rparr>"

definition orphan_code_error :: "code_symbol \<Rightarrow> coverage_error" where
  "orphan_code_error s =
     \<lparr>cov_code = ''ORPHAN_CODE'',
      cov_message = ''Code symbol '' @ [CHR 0x27] @ qualified_path s @ [CHR 0x27] @ '' not in manifest'',
      cov_path = qualified_path s, cov_ids = None,
      cov_file = Some (file_path s), cov_line = Some (line_start s),
      cov_type = Some (sym_type s)\<rparr>"

text \<open>
  The set \<^verbatim>\<open>mapped_symbols\<close> is kept as the list of its distinct members; adding a
  path that is already there changes nothing.
\<close>

fun check_mappings ::
    "string set \<Rightarrow> symbol_mapping list \<Rightarrow> coverage_error list \<times> string list \<times> string list \<Rightarrow>
     coverage_error list \<times> string list \<times> string list" where
  "check_mappings symbol_map [] acc = acc"
| "check_mappings symbol_map (mp # rest) (errors, invalid, mapped) =
     (if path mp \<notin> symbol_map then
        check_mappings symbol_map rest
          (errors @ [orphan_manifest_error mp], invalid @ [path mp], mapped)
      else
        check_mappings symbol_map rest
          (errors, invalid, if path mp \<in> set mapped then mapped else mapped @ [path mp]))"

fun check_symbols ::
    "manifest \<Rightarrow> code_symbol list \<Rightarrow> coverage_error list \<times> string list \<Rightarrow>
     coverage_error list \<times> string list" where
  "check_symbols m [] acc = acc"
| "check_symbols m (s # rest) (errors, orphans) =
     (if should_check_symbol s \<and> qualified_path s \<notin> get_symbol_paths m \<and>
         \<not> coverage_is_excluded m s
      then check_symbols m rest (errors @ [orphan_code_error s], orphans @ [qualified_path s])
      else check_symbols m rest (errors, orphans))"

definition validate_coverage :: "manifest \<Rightarrow> code_symbol list \<Rightarrow> coverage_result" where
  "validate_coverage m parsed_symbols =
     (let symbol_map = set (map qualified_path parsed_symbols);
          (errors1, invalid_mappings, mapped) = check_mappings symbol_map (symbols m) ([], [], []);
          (errors, orphans) = check_symbols m parsed_symbols (errors1, []);
          checkable_symbols = filter should_check_symbol parsed_symbols;
          total = length checkable_symbols;
          mapped_n = length mapped;
          coverage = (if total > 0 then real mapped_n / real total * 100 else 0)
      in \<lparr>total_symbols = total, mapped_symbols = mapped_n, orphan_symbols = orphans,
          invalid_mappings = invalid_mappings, coverage_percentage = coverage,
          cov_errors = errors\<rparr>)"

section \<open>Orphan validator (\<^verbatim>\<open>validators/orphans.py\<close>)\<close>

record orphan_code_entry =
  oc_path :: string
  oc_type :: string
  oc_file :: string
  oc_line :: int

record orphan_manifest_entry =
  om_path :: string
  om_ids :: "string list"

record suggestion =
  sg_orphan :: string
  sg_type :: string
  sg_suggestion :: string

record orphan_result =
  orphan_code :: "orphan_code_entry list"
  orphan_manifest :: "orphan_manifest_entry list"
  suggestions :: "suggestion list"

text \<open>The orphan validator's own filter: it has no rule for the fixture names.\<close>

definition orphan_should_check_symbol :: "code_symbol \<Rightarrow> bool" where
  "orphan_should_check_symbol s =
     (if startswith (name s) ''_'' then False
      else if name s \<in> set [''__init__'', ''__str__'', ''__repr__'', ''__eq__'', ''__hash__'']
        then False
      else if startswith (name s) ''test_'' then False
      else True)"

text \<open>The loop over the exclusion patterns; an exception of \<^verbatim>\<open>Path.match\<close> leaves it.\<close>

fun any_path_match :: "string \<Rightarrow> string list \<Rightarrow> exn + bool" where
  "any_path_match fp [] = Inr False"
| "any_path_match fp (pattern # rest) =
     (case path_match fp pattern of
        Inl e \<Rightarrow> Inl e
      | Inr True \<Rightarrow> Inr True
      | Inr False \<Rightarrow> any_path_match fp rest)"

definition orphan_is_excluded :: "manifest \<Rightarrow> code_symbol \<Rightarrow> exn + bool" where
  "orphan_is_excluded m s =
     (if is_excluded m (qualified_path s) then Inr True
      else any_path_match (file_path s) (patterns (manifest_exclusions m)))"

definition generate_manifest_snippet :: "code_symbol \<Rightarrow> string" where
  "generate_manifest_snippet s =
     ''Add to .golden-thread.yaml:'' @ [CHR 0x0A, CHR 0x0A] @
     ''  - path: '' @ [CHR 0x22] @ qualified_path s @ [CHR 0x22, CHR 0x0A] @
     ''    type: '' @ sym_type s @ [CHR 0x0A] @
     ''    ids:'' @ [CHR 0x0A] @
     ''      - FEAT-XXX-001  # Replace with actual feature ID'' @ [CHR 0x0A] @
     ''      - FR-XXX-001    # Replace with actual requirement ID''"

text \<open>
  The loop that finds orphaned code. The exclusion test comes before the filter, as in
  the source, so that it is evaluated for every symbol that is not in the manifest.
\<close>

fun find_orphan_code ::
    "manifest \<Rightarrow> code_symbol list \<Rightarrow> orphan_code_entry list \<times> suggestion list \<Rightarrow>
     exn + orphan_code_entry list \<times> suggestion list" where
  "find_orphan_code m [] acc = Inr acc"
| "find_orphan_code m (s # rest) (orphans, suggs) =
     (if qualified_path s \<notin> get_symbol_paths m then
        (case orphan_is_excluded m s of
           Inl e \<Rightarrow> Inl e
         | Inr excluded \<Rightarrow>
             if \<not> excluded \<and> orphan_should_check_symbol s then
               find_orphan_code m rest
                 (orphans @ [\<lparr>oc_path = qualified_path s, oc_type = sym_type s,
                               oc_file = file_path s, oc_line = line_start s\<rparr>],
                  suggs @ [\<lparr>sg_orphan = qualified_path s, sg_type = ''code'',
                             sg_suggestion = generate_manifest_snippet s\<rparr>])
             else find_orphan_code m rest (orphans, suggs))
      else find_orphan_code m rest (orphans, suggs))"

text \<open>
  The loop that finds orphaned manifest entries. \<^verbatim>\<open>difflib.get_close_matches\<close> with
  \<^verbatim>\<open>n=3, cutoff=0.6\<close> is the parameter \<open>close_matches\<close>.
\<close>

definition manifest_suggestion :: "string list \<Rightarrow> string" where
  "manifest_suggestion similar =
     (if similar \<noteq> [] then
        ''Did you mean one of these?'' @ [CHR 0x0A] @
        concat (map (\<lambda>(i, s). (if i = (0::nat) then [] else [CHR 0x0A]) @ ''  - '' @ s)
                  (enumerate 0 similar))
      else ''Symbol not found in codebase. Consider removing from manifest or fixing the path.'')"

fun find_orphan_manifest ::
    "(string \<Rightarrow> string list \<Rightarrow> string list) \<Rightarrow> code_symbol list \<Rightarrow> symbol_mapping list \<Rightarrow>
     orphan_manifest_entry list \<times> suggestion list \<Rightarrow> orphan_manifest_entry list \<times> suggestion list" where
  "find_orphan_manifest close_matches parsed [] acc = acc"
| "find_orphan_manifest close_matches parsed (mp # rest) (orphans, suggs) =
     (if path mp \<notin> set (map qualified_path parsed) then
        find_orphan_manifest close_matches parsed rest
          (orphans @ [\<lparr>om_path = path mp, om_ids = ids mp\<rparr>],
           suggs @ [\<lparr>sg_orphan = path mp, sg_type = ''manifest'',
                      sg_suggestion =
                        manifest_suggestion (close_matches (path mp) (map qualified_path parsed))\<rparr>])
      else find_orphan_manifest close_matches parsed rest (orphans, suggs))"

definition detect_orphans ::
    "(string \<Rightarrow> string list \<Rightarrow> string list) \<Rightarrow> manifest \<Rightarrow> code_symbol list \<Rightarrow> exn + orphan_result" where
  "detect_orphans close_matches m parsed_symbols =
     (case find_orphan_code m parsed_symbols ([], []) of
        Inl e \<Rightarrow> Inl e
      | Inr (code_orphans, suggs1) \<Rightarrow>
          (let (manifest_orphans, suggs) =
                 find_orphan_manifest close_matches parsed_symbols (symbols m) ([], suggs1)
           in Inr \<lparr>orphan_code = code_orphans, orphan_manifest = manifest_orphans,
                   suggestions = suggs\<rparr>))"

section \<open>Consistency validator (\<^verbatim>\<open>validators/consistency.py\<close>)\<close>

record consistency_entry =
  code :: string
  message :: string
  entry_ref :: "string option"
  entry_ref_type :: "string option"
  feature :: "string option"

record consistency_result =
  valid :: bool
  errors :: "consistency_entry list"
  warnings :: "consistency_entry list"

text \<open>
  The body of the loop over the referenced ids. The call of \<^verbatim>\<open>get_entry\<close> stands in a
  \<^verbatim>\<open>try\<close> whose handler catches every \<^verbatim>\<open>Exception\<close>; the format check comes before it.
\<close>

definition check_id :: "registry \<Rightarrow> string \<Rightarrow> string \<Rightarrow> consistency_entry list" where
  "check_id reg id_type id_str =
     (if \<not> validate_id_format id_str then
        [\<lparr>code = ''INVALID_FORMAT'', message = ''Invalid ID format: '' @ id_str,
          entry_ref = Some id_str, entry_ref_type = None, feature = None\<rparr>]
      else
        (case get_entry reg id_str of
           Inr None \<Rightarrow>
             [\<lparr>code = ''INVALID_ID'', message = ''ID not found in Notion: '' @ id_str,
               entry_ref = Some id_str, entry_ref_type = Some id_type, feature = None\<rparr>]
         | Inr (Some entry) \<Rightarrow> []
         | Inl e \<Rightarrow>
             [\<lparr>code = ''INVALID_ID'',
               message = ''Error checking ID '' @ id_str @ '': '' @ exn_str e,
               entry_ref = Some id_str, entry_ref_type = None, feature = None\<rparr>]))"

text \<open>\<^verbatim>\<open>parts = msg.split(":", 1); parts[0].strip() if len(parts) > 1 else fallback\<close>.\<close>

definition message_code :: "string \<Rightarrow> string \<Rightarrow> string" where
  "message_code fallback msg =
     (let parts = split_once CHR '':'' msg
      in if length parts > 1 then strip (hd parts) else fallback)"

text \<open>
  The body of the loop over the features: the errors and the warnings it adds. The
  call of \<^verbatim>\<open>validate_traceability_chain\<close> stands in a \<^verbatim>\<open>try\<close> whose handler catches every
  \<^verbatim>\<open>Exception\<close>.
\<close>

definition check_feature ::
    "registry \<Rightarrow> feature_mapping \<Rightarrow> consistency_entry list \<times> consistency_entry list" where
  "check_feature reg f =
     (let feat_id = feature_id f
      in case validate_traceability_chain reg feat_id of
           Inr chain_result \<Rightarrow>
             (map (\<lambda>error_msg.
                     \<lparr>code = message_code ''VALIDATION_ERROR'' error_msg, message = error_msg,
                      entry_ref = None, entry_ref_type = None, feature = Some feat_id\<rparr>)
                  (chain_errors chain_result),
              map (\<lambda>warning_msg.
                     \<lparr>code = message_code ''VALIDATION_WARNING'' warning_msg, message = warning_msg,
                      entry_ref = None, entry_ref_type = None, feature = Some feat_id\<rparr>)
                  (chain_warnings chain_result))
         | Inl e \<Rightarrow>
             ([\<lparr>code = ''VALIDATION_ERROR'',
                message = ''Failed to validate traceability chain for '' @ feat_id @ '': '' @
                          exn_str e,
                entry_ref = None, entry_ref_type = None, feature = Some feat_id\<rparr>], []))"

text \<open>The pairs of type and id in the order of the two nested loops.\<close>

definition referenced_pairs :: "manifest \<Rightarrow> (string \<times> string) list" where
  "referenced_pairs m =
     concat (map (\<lambda>(id_type, id_list). map (\<lambda>id_str. (id_type, id_str)) id_list)
               (get_all_referenced_ids m))"

definition validate_consistency :: "manifest \<Rightarrow> registry \<Rightarrow> consistency_result" where
  "validate_consistency m reg =
     (let errors1 = concat (map (\<lambda>(id_type, id_str). check_id reg id_type id_str)
                              (referenced_pairs m));
          checked = map (check_feature reg) (features m);
          errors2 = errors1 @ concat (map fst checked);
          warnings2 = concat (map snd checked)
      in \<lparr>valid = (length errors2 = 0), errors = errors2, warnings = warnings2\<rparr>)"

section \<open>Client cache (\<^verbatim>\<open>notion/client.py\<close>)\<close>

text \<open>
  Payloads are JSON values; Python's \<^verbatim>\<open>None\<close> is \<open>JNull\<close>, which is also what
  \<^verbatim>\<open>_get_cached\<close> returns for a miss.
\<close>

datatype json =
    JNull
  | JBool bool
  | JNum int
  | JStr string
  | JArr "json list"
  | JObj "(string \<times> json) list"

text \<open>
  A file of the cache directory: its modification time in microseconds, its text, and
  whether it can be opened for reading. The directory maps a cache key to the file
  \<^verbatim>\<open><key>.json\<close>. Two permissions of the directory decide what the operating system
  lets the client do: \<open>searchable\<close> says whether a file in it can be looked up
  (\<^verbatim>\<open>exists\<close>, \<^verbatim>\<open>stat\<close>, \<^verbatim>\<open>open\<close>), \<open>writable\<close> whether a file in it can be created,
  rewritten or removed.
\<close>

record cache_file =
  mtime :: int
  content :: string
  readable :: bool

record cache_dir =
  files :: "string \<rightharpoonup> cache_file"
  searchable :: bool
  writable :: bool

record client =
  cache_enabled :: bool
  cache_ttl :: int

definition get_cache_path :: "string \<Rightarrow> string" where
  "get_cache_path cache_key = cache_key @ ''.json''"

text \<open>
  \<^verbatim>\<open>cache_path.exists()\<close>: in Python 3.11 a refused lookup is not among the errors it
  turns into False, so it raises. In a sequential run \<^verbatim>\<open>cache_path.stat()\<close>, called right
  after it on the same path, succeeds whenever \<^verbatim>\<open>exists()\<close> returned True.
\<close>

definition path_exists :: "cache_dir \<Rightarrow> string \<Rightarrow> exn + bool" where
  "path_exists d cache_key =
     (if \<not> searchable d then Inl (PermissionError (get_cache_path cache_key))
      else Inr (files d cache_key \<noteq> None))"

text \<open>\<^verbatim>\<open>cache_path.unlink()\<close> of a file that exists: refused unless the directory permits it.\<close>

definition unlink :: "cache_dir \<Rightarrow> string \<Rightarrow> exn + cache_dir" where
  "unlink d cache_key =
     (if searchable d \<and> writable d then Inr (d\<lparr>files := (files d)(cache_key := None)\<rparr>)
      else Inl (PermissionError (get_cache_path cache_key)))"

text \<open>
  \<^verbatim>\<open>json.load\<close> and \<^verbatim>\<open>json.dump\<close> are parameters. \<open>json_load\<close> gives the value read, or
  nothing when it raises; \<open>json_dump\<close> gives the text it wrote to the file and whether
  it finished without raising.

  \<^verbatim>\<open>_get_cached\<close> returns the value and the directory as it leaves it, or raises. Only
  opening and parsing the file stand in its \<^verbatim>\<open>try\<close>; \<^verbatim>\<open>exists\<close>, \<^verbatim>\<open>stat\<close> and both calls of
  \<^verbatim>\<open>unlink\<close>, the second of them inside the handler, do not.
\<close>

definition get_cached ::
    "(string \<Rightarrow> json option) \<Rightarrow> client \<Rightarrow> int \<Rightarrow> cache_dir \<Rightarrow> string \<Rightarrow>
     exn + json \<times> cache_dir" where
  "get_cached json_load c now d cache_key =
     (if \<not> cache_enabled c then Inr (JNull, d)
      else
        (case path_exists d cache_key of
           Inl e \<Rightarrow> Inl e
         | Inr False \<Rightarrow> Inr (JNull, d)
         | Inr True \<Rightarrow>
             (case files d cache_key of
                None \<Rightarrow> Inr (JNull, d)
              | Some f \<Rightarrow>
                  if now - mtime f > cache_ttl c * 1000000 then
                    (case unlink d cache_key of
                       Inl e \<Rightarrow> Inl e
                     | Inr d' \<Rightarrow> Inr (JNull, d'))
                  else
                    (case (if readable f then json_load (content f) else None) of
                       Some v \<Rightarrow> Inr (v, d)
                     | None \<Rightarrow>
                         (case unlink d cache_key of
                            Inl e \<Rightarrow> Inl e
                          | Inr d' \<Rightarrow> Inr (JNull, d'))))))"

text \<open>
  \<^verbatim>\<open>_set_cached\<close>: opening the file for writing and \<^verbatim>\<open>json.dump\<close> stand in a \<^verbatim>\<open>try\<close> whose
  handler ignores every \<^verbatim>\<open>Exception\<close>. A refused \<^verbatim>\<open>open\<close> leaves the directory as it was;
  a \<^verbatim>\<open>json.dump\<close> that raises leaves the text written so far.
\<close>

definition set_cached ::
    "(json \<Rightarrow> string \<times> bool) \<Rightarrow> client \<Rightarrow> int \<Rightarrow> cache_dir \<Rightarrow> string \<Rightarrow> json \<Rightarrow> cache_dir" where
  "set_cached json_dump c now d cache_key data =
     (if \<not> cache_enabled c then d
      else if \<not> (searchable d \<and> writable d) then d
      else
        (let (text, finished) = json_dump data
         in d\<lparr>files := (files d)(cache_key \<mapsto> \<lparr>mtime = now, content = text, readable = True\<rparr>)\<rparr>))"

section \<open>A sample registry\<close>

text \<open>
  A registry with one Feature, one Functional Requirement and one Verification. The
  Feature links a Business Requirement, a User Requirement and the given requirement
  ids, and no Call Flow; the Requirement \<^verbatim>\<open>FR-AUTH-001\<close> links the Verification, which
  has the given status and links a Test Case. Three collections are configured.
\<close>

definition sample_feature_page :: "string list \<Rightarrow> page" where
  "sample_feature_page fr_ids =
     \<lparr>properties =
        [''ID'' \<mapsto> PTitle [''FEAT-AUTH-001''],
         ''BR-IDs'' \<mapsto> PRelation [''BR-AUTH-001''],
         ''UR-IDs'' \<mapsto> PRelation [''UR-AUTH-001''],
         ''FR-IDs'' \<mapsto> PRelation fr_ids]\<rparr>"

definition sample_requirement_page :: page where
  "sample_requirement_page =
     \<lparr>properties =
        [''ID'' \<mapsto> PTitle [''FR-AUTH-001''],
         ''V-IDs'' \<mapsto> PRelation [''V-AUTH-001'']]\<rparr>"

definition sample_verification_page :: "string \<Rightarrow> page" where
  "sample_verification_page v_status =
     \<lparr>properties =
        [''ID'' \<mapsto> PTitle [''V-AUTH-001''],
         ''Status'' \<mapsto> PSelect (Some v_status),
         ''TC-IDs'' \<mapsto> PRelation [''TC-AUTH-001'']]\<rparr>"

definition sample_search :: "string list \<Rightarrow> string \<Rightarrow> string \<Rightarrow> db_filter \<Rightarrow> exn + page list" where
  "sample_search fr_ids v_status db_id flt =
     (case flt of
        IdEquals i \<Rightarrow>
          if db_id = ''db-feat'' \<and> i = ''FEAT-AUTH-001'' then Inr [sample_feature_page fr_ids]
          else if db_id = ''db-fr'' \<and> i = ''FR-AUTH-001'' then Inr [sample_requirement_page]
          else if db_id = ''db-v'' \<and> i = ''V-AUTH-001''
            then Inr [sample_verification_page v_status]
          else Inr []
      | NameContains i \<Rightarrow> Inr [])"

definition sample_registry :: "string list \<Rightarrow> string \<Rightarrow> registry" where
  "sample_registry fr_ids v_status =
     \<lparr>database_ids = [''FEAT'' \<mapsto> ''db-feat'', ''FR'' \<mapsto> ''db-fr'', ''V'' \<mapsto> ''db-v''],
      search_database = sample_search fr_ids v_status\<rparr>"

section \<open>Sample manifests and symbols\<close>

definition empty_manifest :: manifest where
  "empty_manifest =
     \<lparr>service = ''test-service'', version = ''1.0'', symbols = [], features = [],
      interfaces = [], tests = [],
      manifest_exclusions = \<lparr>patterns = [], excluded_symbols = []\<rparr>\<rparr>"

definition class_symbol :: "string \<Rightarrow> string \<Rightarrow> code_symbol" where
  "class_symbol nm fp =
     \<lparr>name = nm, sym_type = ''class'', file_path = fp, line_start = 1, line_end = 5,
      parent = None\<rparr>"

text \<open>A manifest that excludes the files matching one pattern.\<close>

definition pattern_manifest :: "string \<Rightarrow> manifest" where
  "pattern_manifest pat =
     empty_manifest\<lparr>manifest_exclusions := \<lparr>patterns = [pat], excluded_symbols = []\<rparr>\<rparr>"

text \<open>
  The input of the repository's test \<^verbatim>\<open>test_validate_full_coverage\<close>: a class and a
  function whose name starts with \<^verbatim>\<open>test_\<close>, both mapped by the manifest.
\<close>

definition full_coverage_manifest :: manifest where
  "full_coverage_manifest =
     empty_manifest\<lparr>symbols :=
       [\<lparr>path = ''test.py::TestClass'', mapping_type = ''class'', ids = [''FEAT-001'']\<rparr>,
        \<lparr>path = ''test.py::test_function'', mapping_type = ''function'', ids = [''FR-001'']\<rparr>]\<rparr>"

definition full_coverage_symbols :: "code_symbol list" where
  "full_coverage_symbols =
     [\<lparr>name = ''TestClass'', sym_type = ''class'', file_path = ''test.py'', line_start = 1,
       line_end = 5, parent = None\<rparr>,
      \<lparr>name = ''test_function'', sym_type = ''function'', file_path = ''test.py'', line_start = 7,
       line_end = 10, parent = None\<rparr>]"

text \<open>
  A manifest that maps one class that is parsed and one that is not, with parsed
  symbols of which one is not mapped.
\<close>

definition orphans_manifest :: manifest where
  "orphans_manifest =
     empty_manifest\<lparr>symbols :=
       [\<lparr>path = ''test.py::MappedClass'', mapping_type = ''class'', ids = [''FEAT-001'']\<rparr>,
        \<lparr>path = ''test.py::MissingClass'', mapping_type = ''class'', ids = [''FEAT-002'']\<rparr>]\<rparr>"

definition orphans_symbols :: "code_symbol list" where
  "orphans_symbols =
     [class_symbol ''MappedClass'' ''test.py'', class_symbol ''OrphanClass'' ''test.py'']"

text \<open>
  A manifest whose one symbol mapping refers to an id without a type prefix, an id of a
  type that the sample registry has no collection for and an id that the registry does
  not hold, and which declares the sample Feature.
\<close>

definition consistency_manifest :: manifest where
  "consistency_manifest =
     empty_manifest\<lparr>
       symbols := [\<lparr>path = ''auth.py::Login'', mapping_type = ''class'',
                    ids = [''bad'', ''BR-AUTH-001'', ''FR-AUTH-404'']\<rparr>],
       features := [\<lparr>feature_id = ''FEAT-AUTH-001'', description = ''Login'',
                     business_requirements = [], user_requirements = [], call_flows = []\<rparr>]\<rparr>"

section \<open>A sample cache\<close>

text \<open>
  The JSON codec on the few texts used below: \<^verbatim>\<open>null\<close>, \<^verbatim>\<open>[]\<close> and \<^verbatim>\<open>[1, 2]\<close>. Writing any other
  value is taken to raise before any text is written, reading any other text to raise.
\<close>

definition sample_json_dump :: "json \<Rightarrow> string \<times> bool" where
  "sample_json_dump j =
     (if j = JNull then (''null'', True)
      else if j = JArr [] then (''[]'', True)
      else if j = JArr [JNum 1, JNum 2] then (''[1, 2]'', True)
      else ([], False))"

definition sample_json_load :: "string \<Rightarrow> json option" where
  "sample_json_load s =
     (if s = ''null'' then Some JNull
      else if s = ''[]'' then Some (JArr [])
      else if s = ''[1, 2]'' then Some (JArr [JNum 1, JNum 2])
      else None)"

definition sample_client :: client where
  "sample_client = \<lparr>cache_enabled = True, cache_ttl = 3600\<rparr>"

definition empty_cache :: cache_dir where
  "empty_cache = \<lparr>files = Map.empty, searchable = True, writable = True\<rparr>"

text \<open>A cache that holds one file, written at time 0, with the given text.\<close>

definition one_file_cache :: "string \<Rightarrow> string \<Rightarrow> cache_dir" where
  "one_file_cache cache_key text =
     \<lparr>files = [cache_key \<mapsto> \<lparr>mtime = 0, content = text, readable = True\<rparr>],
      searchable = True, writable = True\<rparr>"

text \<open>The same cache in a directory of mode 0555: files can be read, none removed.\<close>

definition read_only_cache :: "string \<Rightarrow> string \<Rightarrow> cache_dir" where
  "read_only_cache cache_key text = (one_file_cache cache_key text)\<lparr>writable := False\<rparr>"

section \<open>Properties of the string functions\<close>

lemma split_on_nonempty: "split_on c s \<noteq> []"
  by (induction s) (auto split: list.splits)

lemma hd_split_on: "hd (split_on c s) = takeWhile (\<lambda>x. x \<noteq> c) s"
  by (induction s) (auto split: list.splits simp: split_on_nonempty)

lemma length_split_on: "length (split_on c s) = Suc (length (filter (\<lambda>x. x = c) s))"
  by (induction s) (auto split: list.splits simp: split_on_nonempty)

lemma takeWhile_neq_append: "c \<notin> set t \<Longrightarrow> takeWhile (\<lambda>x. x \<noteq> c) (t @ c # r) = t"
  by (induction t) auto

lemma extract_id_type_eq:
  "extract_id_type s =
     (if CHR ''-'' \<in> set s then Some (takeWhile (\<lambda>x. x \<noteq> CHR ''-'') s) else None)"
proof -
  have "length (split_on CHR ''-'' s) < 2 \<longleftrightarrow> CHR ''-'' \<notin> set s"
    by (auto simp add: length_split_on filter_empty_conv less_Suc_eq_le numeral_2_eq_2)
  then show ?thesis
    by (simp add: extract_id_type_def Let_def hd_split_on)
qed

section \<open>Identifier format\<close>

lemma re_match_lits:
  "re_match (map (\<lambda>c. One (Lit c)) t @ r) s \<longleftrightarrow> (\<exists>rest. s = t @ rest \<and> re_match r rest)"
proof (induction t arbitrary: s)
  case Nil
  show ?case by simp
next
  case (Cons a t)
  show ?case by (cases s) (auto simp: Cons.IH)
qed

lemma re_match_scope:
  "re_match (OneOrMore UpperAZ # One (Lit CHR ''-'') # r) s \<longleftrightarrow>
     (\<exists>scope rest. scope \<noteq> [] \<and> list_all is_upper_az scope \<and>
        s = scope @ CHR ''-'' # rest \<and> re_match r rest)"
proof (induction s)
  case Nil
  show ?case by simp
next
  case (Cons c cs)
  show ?case (is "?L = ?R")
  proof
    assume l: ?L
    then have up: "is_upper_az c" by simp
    from l have "re_match (OneOrMore UpperAZ # One (Lit CHR ''-'') # r) cs \<or>
        re_match (One (Lit CHR ''-'') # r) cs" by simp
    then show ?R
    proof
      assume "re_match (OneOrMore UpperAZ # One (Lit CHR ''-'') # r) cs"
      then obtain scope rest where "scope \<noteq> []" "list_all is_upper_az scope"
          "cs = scope @ CHR ''-'' # rest" "re_match r rest"
        using Cons.IH by blast
      with up show ?R
        by (intro exI [of _ "c # scope"] exI [of _ rest]) simp
    next
      assume a: "re_match (One (Lit CHR ''-'') # r) cs"
      then obtain rest where "cs = CHR ''-'' # rest" "re_match r rest"
        by (cases cs) auto
      with up show ?R
        by (intro exI [of _ "[c]"] exI [of _ rest]) simp
    qed
  next
    assume ?R
    then obtain scope rest where s: "scope \<noteq> []" "list_all is_upper_az scope"
        "c # cs = scope @ CHR ''-'' # rest" "re_match r rest"
      by blast
    then obtain sc' where sc: "scope = c # sc'" by (cases scope) auto
    with s have up: "is_upper_az c" and cs: "cs = sc' @ CHR ''-'' # rest"
      and all: "list_all is_upper_az sc'" by auto
    show ?L
    proof (cases sc')
      case Nil
      with up cs s show ?thesis by simp
    next
      case (Cons a as)
      then have "re_match (OneOrMore UpperAZ # One (Lit CHR ''-'') # r) cs"
        using Cons.IH cs all s(4) by blast
      with up show ?thesis by simp
    qed
  qed
qed

lemma re_match_digits:
  "re_match [Times 3 Digit] s \<longleftrightarrow>
     (\<exists>d nl. length d = 3 \<and> list_all is_digit d \<and> (nl = [] \<or> nl = [CHR 0x0A]) \<and> s = d @ nl)"
  (is "?L = ?R")
proof
  assume ?L
  then obtain a b c nl where "s = a # b # c # nl" "is_digit a" "is_digit b" "is_digit c"
      "nl = [] \<or> nl = [CHR 0x0A]"
    by (cases s; cases "tl s"; cases "tl (tl s)") (auto simp: numeral_3_eq_3)
  then show ?R
    by (intro exI [of _ "[a, b, c]"] exI [of _ nl]) auto
next
  assume ?R
  then obtain d nl where d: "length d = 3" "list_all is_digit d"
      "nl = [] \<or> nl = [CHR 0x0A]" "s = d @ nl"
    by blast
  then obtain a b c where "d = [a, b, c]"
    by (cases d; cases "tl d"; cases "tl (tl d)"; cases "tl (tl (tl d))") auto
  with d show ?L by (auto simp: numeral_3_eq_3)
qed

lemma map_of_tabulate:
  "map_of (map (\<lambda>t. (t, f t)) ks) t = (if t \<in> set ks then Some (f t) else None)"
  by (induction ks) auto

lemma ID_PATTERNS_tabulate: "ID_PATTERNS = map (\<lambda>t. (t, id_pattern t)) REGISTRY_TYPES"
  by (simp add: ID_PATTERNS_def REGISTRY_TYPES_def)

lemma ID_PATTERNS_lookup:
  "map_of ID_PATTERNS t = (if t \<in> set REGISTRY_TYPES then Some (id_pattern t) else None)"
  by (simp only: ID_PATTERNS_tabulate map_of_tabulate)

lemma REGISTRY_TYPES_no_dash:
  "t \<in> set REGISTRY_TYPES \<Longrightarrow> CHR ''-'' \<notin> set t \<and> t \<noteq> []"
  unfolding REGISTRY_TYPES_def by auto

lemma re_match_id_pattern:
  "re_match (id_pattern t) s \<longleftrightarrow>
     (\<exists>scope d nl. scope \<noteq> [] \<and> list_all is_upper_az scope \<and> length d = 3 \<and>
        list_all is_digit d \<and> (nl = [] \<or> nl = [CHR 0x0A]) \<and>
        s = t @ ''-'' @ scope @ ''-'' @ d @ nl)"
  (is "?L = ?R")
proof
  assume ?L
  then obtain r1 where r1: "s = t @ r1"
      "re_match [One (Lit CHR ''-''), OneOrMore UpperAZ, One (Lit CHR ''-''), Times 3 Digit] r1"
    unfolding id_pattern_def re_match_lits by blast
  then obtain r2 where r2: "r1 = CHR ''-'' # r2"
      "re_match [OneOrMore UpperAZ, One (Lit CHR ''-''), Times 3 Digit] r2"
    by (cases r1) auto
  then obtain scope r3 where r3: "scope \<noteq> []" "list_all is_upper_az scope"
      "r2 = scope @ CHR ''-'' # r3" "re_match [Times 3 Digit] r3"
    unfolding re_match_scope by blast
  then obtain d nl where d: "length d = 3" "list_all is_digit d"
      "nl = [] \<or> nl = [CHR 0x0A]" "r3 = d @ nl"
    unfolding re_match_digits by blast
  from r1 r2 r3 d show ?R by auto
next
  assume ?R
  then obtain scope d nl where h: "scope \<noteq> []" "list_all is_upper_az scope" "length d = 3"
      "list_all is_digit d" "nl = [] \<or> nl = [CHR 0x0A]"
      "s = t @ ''-'' @ scope @ ''-'' @ d @ nl"
    by blast
  have "re_match [Times 3 Digit] (d @ nl)"
    unfolding re_match_digits using h by blast
  then have "re_match [OneOrMore UpperAZ, One (Lit CHR ''-''), Times 3 Digit]
      (scope @ CHR ''-'' # d @ nl)"
    unfolding re_match_scope using h by blast
  then have "re_match [One (Lit CHR ''-''), OneOrMore UpperAZ, One (Lit CHR ''-''), Times 3 Digit]
      (CHR ''-'' # scope @ CHR ''-'' # d @ nl)"
    by simp
  then show ?L
    unfolding id_pattern_def re_match_lits using h by auto
qed

text \<open>
  Claim C8. \<^verbatim>\<open>validate_id_format\<close> takes the type prefix to be the text before the first
  \<^verbatim>\<open>-\<close>, and accepts an id exactly when that prefix is one of the fixed types and the
  id is the prefix, \<^verbatim>\<open>-\<close>, a non-empty run of upper-case letters, \<^verbatim>\<open>-\<close> and three digits
  (Python's \<^verbatim>\<open>$\<close> also allows one newline at the very end). So an unknown type, and an
  id without \<^verbatim>\<open>-\<close>, give False. It accepts \<^verbatim>\<open>BR-AUTH-001\<close> and rejects \<^verbatim>\<open>br-auth-001\<close>,
  \<^verbatim>\<open>BR-001\<close> and \<^verbatim>\<open>INVALID\<close>.
\<close>

theorem validate_id_format_spec:
  "(extract_id_type s =
      (if CHR ''-'' \<in> set s then Some (takeWhile (\<lambda>x. x \<noteq> CHR ''-'') s) else None)) \<and>
   (validate_id_format s \<longleftrightarrow>
      (\<exists>t scope d nl. t \<in> set REGISTRY_TYPES \<and> scope \<noteq> [] \<and> list_all is_upper_az scope \<and>
         length d = 3 \<and> list_all is_digit d \<and> (nl = [] \<or> nl = [CHR 0x0A]) \<and>
         s = t @ ''-'' @ scope @ ''-'' @ d @ nl)) \<and>
   validate_id_format ''BR-AUTH-001'' \<and>
   \<not> validate_id_format ''br-auth-001'' \<and>
   \<not> validate_id_format ''BR-001'' \<and>
   \<not> validate_id_format ''INVALID''"
proof (intro conjI)
  show "extract_id_type s =
      (if CHR ''-'' \<in> set s then Some (takeWhile (\<lambda>x. x \<noteq> CHR ''-'') s) else None)"
    by (rule extract_id_type_eq)
  show "validate_id_format s \<longleftrightarrow>
      (\<exists>t scope d nl. t \<in> set REGISTRY_TYPES \<and> scope \<noteq> [] \<and> list_all is_upper_az scope \<and>
         length d = 3 \<and> list_all is_digit d \<and> (nl = [] \<or> nl = [CHR 0x0A]) \<and>
         s = t @ ''-'' @ scope @ ''-'' @ d @ nl)" (is "?L = ?R")
  proof
    assume l: ?L
    then obtain t where t: "extract_id_type s = Some t" "t \<noteq> []"
      by (auto simp: validate_id_format_def split: option.splits if_splits)
    with l have "t \<in> set REGISTRY_TYPES" "re_match (id_pattern t) s"
      by (auto simp: validate_id_format_def ID_PATTERNS_lookup split: if_splits)
    then show ?R unfolding re_match_id_pattern by blast
  next
    assume ?R
    then obtain t scope d nl where h: "t \<in> set REGISTRY_TYPES" "scope \<noteq> []"
        "list_all is_upper_az scope" "length d = 3" "list_all is_digit d"
        "nl = [] \<or> nl = [CHR 0x0A]" "s = t @ ''-'' @ scope @ ''-'' @ d @ nl"
      by blast
    from h(1) have nd: "CHR ''-'' \<notin> set t" "t \<noteq> []"
      using REGISTRY_TYPES_no_dash by auto
    from nd h(7) have "extract_id_type s = Some t"
      by (simp add: extract_id_type_eq takeWhile_neq_append)
    moreover have "re_match (id_pattern t) s"
      unfolding re_match_id_pattern using h by blast
    ultimately show ?L
      using h(1) nd by (simp add: validate_id_format_def ID_PATTERNS_lookup)
  qed
  show "validate_id_format ''BR-AUTH-001''" by code_simp
  show "\<not> validate_id_format ''br-auth-001''" by code_simp
  show "\<not> validate_id_format ''BR-001''" by code_simp
  show "\<not> validate_id_format ''INVALID''" by code_simp
qed

section \<open>Chain validation\<close>

lemma linked_iff_links: "linked e k \<longleftrightarrow> links e k \<noteq> []"
  by (simp add: linked_def links_def split: option.splits)

lemma requirement_links_linked:
  "requirement_links feat \<noteq> [] \<Longrightarrow> list_ex (linked feat) requirement_types"
  by (auto simp: requirement_links_def list_ex_iff linked_iff_links)

lemma lower_verified_nonempty: "lower s = ''verified'' \<Longrightarrow> s \<noteq> []"
  by (auto simp: lower_def)

lemma lower_Verified: "lower ''Verified'' = ''verified''"
  by code_simp

lemma lower_Planned: "lower ''Planned'' \<noteq> ''verified''"
  by code_simp

subsection \<open>The sample registry evaluated\<close>

lemmas parse_defs = parse_entry_def extract_related_ids_def RELATION_PROPERTIES_def
  extract_relation_def extract_select_def extract_title_def extract_rich_text_def str_or_def
  linked_def links_def Let_def

lemma sample_get_feature:
  "get_entry (sample_registry fr_ids st) ''FEAT-AUTH-001'' =
     Inr (Some (parse_entry (sample_feature_page fr_ids) ''FEAT''))"
  by (simp add: get_entry_def extract_id_type_eq sample_registry_def sample_search_def)

lemma sample_get_requirement:
  "get_entry (sample_registry fr_ids st) ''FR-AUTH-001'' =
     Inr (Some (parse_entry sample_requirement_page ''FR''))"
  by (simp add: get_entry_def extract_id_type_eq sample_registry_def sample_search_def)

lemma sample_get_verification:
  "get_entry (sample_registry fr_ids st) ''V-AUTH-001'' =
     Inr (Some (parse_entry (sample_verification_page st) ''V''))"
  by (simp add: get_entry_def extract_id_type_eq sample_registry_def sample_search_def)

lemma sample_get_missing:
  "get_entry (sample_registry fr_ids st) ''FR-AUTH-404'' = Inr None"
  by (simp add: get_entry_def extract_id_type_eq sample_registry_def sample_search_def)

lemma sample_get_page_id:
  "get_entry (sample_registry fr_ids st) ''0a1b2c3d-0000-4000-8000-000000000003'' =
     Inl (NotionError (''Unknown ID type: 0a1b2c3d'' @ [CHR 0x0A] @
            ''Please add 0a1b2c3d database ID to configuration.''))"
  by (simp add: get_entry_def extract_id_type_eq sample_registry_def)

lemma sample_feature_links:
  "linked (parse_entry (sample_feature_page fr_ids) ''FEAT'') ''BR''"
  "linked (parse_entry (sample_feature_page fr_ids) ''FEAT'') ''UR''"
  "\<not> linked (parse_entry (sample_feature_page fr_ids) ''FEAT'') ''CF''"
  "requirement_links (parse_entry (sample_feature_page fr_ids) ''FEAT'') = fr_ids"
  by (simp_all add: parse_defs sample_feature_page_def requirement_links_def requirement_types_def)

lemma sample_requirement_links:
  "links (parse_entry sample_requirement_page ''FR'') ''V'' = [''V-AUTH-001'']"
  by (simp add: parse_defs sample_requirement_page_def)

lemma sample_verification_links:
  "linked (parse_entry (sample_verification_page st) ''V'') ''TC''"
  "\<not> linked (parse_entry (sample_verification_page st) ''V'') ''EA''"
  "status (parse_entry (sample_verification_page st) ''V'') = st"
  by (simp_all add: parse_defs sample_verification_page_def)

subsection \<open>Relations of a parsed entry\<close>

text \<open>
  \<^verbatim>\<open>_extract_related_ids\<close> fills in the relation types that \<^verbatim>\<open>RELATION_PROPERTIES\<close> lists for
  the entry's type and no other. The list for a Verification has no Evidence Artifact,
  so an entry parsed for a Verification never links one.
\<close>

lemma foldl_relation_other:
  "k \<notin> set ts \<Longrightarrow>
   foldl (\<lambda>related rel_type.
            case first_relation props [rel_type @ ''-IDs'', rel_type @ '' IDs'', rel_type] of
              None \<Rightarrow> related
            | Some rel_ids \<Rightarrow> related(rel_type \<mapsto> rel_ids)) acc ts k = acc k"
  by (induction ts arbitrary: acc) (auto split: option.splits)

lemma verification_entry_no_evidence: "\<not> linked (parse_entry pg ''V'') ''EA''"
proof -
  have "extract_related_ids (properties pg) ''V'' ''EA'' = None"
    unfolding extract_related_ids_def RELATION_PROPERTIES_def
    by (simp add: foldl_relation_other del: first_relation.simps foldl.simps)
  then show ?thesis
    by (simp add: linked_def parse_entry_def Let_def)
qed

subsection \<open>A Verified Verification without evidence\<close>

text \<open>
  Claim C1. Take a Feature that resolves and links a Business Requirement and a User
  Requirement, whose requirement links are one Requirement. The Requirement resolves and
  links one Verification, which resolves, links a Test Case, has a status that is
  \<^verbatim>\<open>verified\<close> up to letter case, and links no Evidence Artifact. Then chain validation
  returns a result that is not valid and whose errors are exactly the one \<^verbatim>\<open>MISSING_EA\<close>
  error; no error is a \<^verbatim>\<open>MISSING_TC\<close> error. The two checks on a Verification are
  independent: the \<^verbatim>\<open>MISSING_TC\<close> error depends only on the Test Case link, the
  \<^verbatim>\<open>MISSING_EA\<close> error only on the status and the Evidence link.
\<close>

theorem chain_verified_without_evidence:
  assumes feat: "get_entry reg feat_id = Inr (Some feat)"
    and br: "linked feat ''BR''"
    and ur: "linked feat ''UR''"
    and reqs: "requirement_links feat = [req_id]"
    and req: "get_entry reg req_id = Inr (Some req)"
    and vs: "links req ''V'' = [v_id]"
    and v: "get_entry reg v_id = Inr (Some v)"
    and tc: "linked v ''TC''"
    and st: "lower (status v) = ''verified''"
    and ea: "\<not> linked v ''EA''"
  shows "validate_traceability_chain reg feat_id =
           Inr \<lparr>chain_valid = False,
                chain_errors =
                  [''MISSING_EA: '' @ v_id @ '' is Verified but has no Evidence Artifact''],
                chain_warnings = feature_warnings feat_id feat\<rparr> \<and>
         \<not> list_ex (\<lambda>e. startswith e ''MISSING_TC'')
             [''MISSING_EA: '' @ v_id @ '' is Verified but has no Evidence Artifact''] \<and>
         ((''MISSING_TC: '' @ v_id @ '' has no Test Case'' \<in> set (verification_errors v_id w)) =
           (\<not> linked w ''TC'')) \<and>
         ((''MISSING_EA: '' @ v_id @ '' is Verified but has no Evidence Artifact''
             \<in> set (verification_errors v_id w)) =
           (is_verified w \<and> \<not> linked w ''EA''))"
proof (intro conjI)
  have fe: "feature_errors feat_id feat = []"
    using br ur reqs requirement_links_linked [of feat] by (simp add: feature_errors_def)
  have ve: "verification_errors v_id v =
      [''MISSING_EA: '' @ v_id @ '' is Verified but has no Evidence Artifact'']"
    using tc st ea lower_verified_nonempty [OF st]
    by (simp add: verification_errors_def is_verified_def)
  have lv: "linked req ''V''"
    using vs by (simp add: linked_iff_links)
  have "check_requirements reg [req_id] [] =
      Inr [''MISSING_EA: '' @ v_id @ '' is Verified but has no Evidence Artifact'']"
    using req lv vs v ve by simp
  then show "validate_traceability_chain reg feat_id =
           Inr \<lparr>chain_valid = False,
                chain_errors =
                  [''MISSING_EA: '' @ v_id @ '' is Verified but has no Evidence Artifact''],
                chain_warnings = feature_warnings feat_id feat\<rparr>"
    using feat fe reqs by (simp add: validate_traceability_chain_def)
  show "\<not> list_ex (\<lambda>e. startswith e ''MISSING_TC'')
             [''MISSING_EA: '' @ v_id @ '' is Verified but has no Evidence Artifact'']"
    by (simp add: startswith_def)
  show "(''MISSING_TC: '' @ v_id @ '' has no Test Case'' \<in> set (verification_errors v_id w)) =
           (\<not> linked w ''TC'')"
    by (simp add: verification_errors_def)
  show "(''MISSING_EA: '' @ v_id @ '' is Verified but has no Evidence Artifact''
             \<in> set (verification_errors v_id w)) =
           (is_verified w \<and> \<not> linked w ''EA'')"
    by (simp add: verification_errors_def)
qed

theorem chain_verified_without_evidence_witness:
  "validate_traceability_chain (sample_registry [''FR-AUTH-001''] ''Verified'') ''FEAT-AUTH-001'' =
     Inr \<lparr>chain_valid = False,
          chain_errors = [''MISSING_EA: V-AUTH-001 is Verified but has no Evidence Artifact''],
          chain_warnings = [''MISSING_CF: FEAT-AUTH-001 has no Call Flow'']\<rparr>"
proof -
  have st: "lower (status (parse_entry (sample_verification_page ''Verified'') ''V'')) = ''verified''"
    by (simp add: sample_verification_links lower_Verified)
  show ?thesis
    using chain_verified_without_evidence [OF sample_get_feature sample_feature_links(1,2,4)
        sample_get_requirement sample_requirement_links sample_get_verification
        sample_verification_links(1) st sample_verification_links(2)]
    by (simp add: feature_warnings_def sample_feature_links)
qed

subsection \<open>A complete chain\<close>











subsection \<open>Links that do not resolve\<close>

lemma check_verifications_mono:
  "check_verifications reg vs errs = Inr out \<Longrightarrow> set errs \<subseteq> set out"
proof (induction vs arbitrary: errs)
  case Nil
  then show ?case by simp
next
  case (Cons v_id vs)
  show ?case
  proof (cases "get_entry reg v_id")
    case (Inl e)
    with Cons.prems show ?thesis by simp
  next
    case (Inr x)
    show ?thesis
    proof (cases x)
      case None
      with Inr Cons.prems have
        "check_verifications reg vs (errs @ [''INVALID_ID: '' @ v_id @ '' not found'']) = Inr out"
        by simp
      from Cons.IH [OF this] show ?thesis by simp
    next
      case (Some v)
      with Inr Cons.prems have
        "check_verifications reg vs (errs @ verification_errors v_id v) = Inr out"
        by simp
      from Cons.IH [OF this] show ?thesis by simp
    qed
  qed
qed

lemma check_verifications_returns:
  "\<forall>v_id\<in>set vs. \<exists>y. get_entry reg v_id = Inr y \<Longrightarrow>
   \<exists>out. check_verifications reg vs errs = Inr out"
proof (induction vs arbitrary: errs)
  case Nil
  show ?case by simp
next
  case (Cons v_id vs)
  then obtain y where y: "get_entry reg v_id = Inr y" by auto
  have "\<And>errs'. \<exists>out. check_verifications reg vs errs' = Inr out"
    using Cons by simp
  with y show ?case by (cases y) simp_all
qed

lemma check_requirements_mono:
  "check_requirements reg rs errs = Inr out \<Longrightarrow> set errs \<subseteq> set out"
proof (induction rs arbitrary: errs)
  case Nil
  then show ?case by simp
next
  case (Cons req_id rs)
  show ?case
  proof (cases "get_entry reg req_id")
    case (Inl e)
    with Cons.prems show ?thesis by simp
  next
    case (Inr x)
    show ?thesis
    proof (cases x)
      case None
      with Inr Cons.prems have
        "check_requirements reg rs (errs @ [''INVALID_ID: '' @ req_id @ '' not found'']) = Inr out"
        by simp
      from Cons.IH [OF this] show ?thesis by simp
    next
      case (Some req)
      show ?thesis
      proof (cases "linked req ''V''")
        case False
        with Some Inr Cons.prems have
          "check_requirements reg rs (errs @ [''MISSING_V: '' @ req_id @ '' has no Verification''])
             = Inr out"
          by simp
        from Cons.IH [OF this] show ?thesis by simp
      next
        case True
        with Some Inr Cons.prems obtain mid where
          m: "check_verifications reg (links req ''V'') errs = Inr mid"
            "check_requirements reg rs mid = Inr out"
          by (auto split: sum.splits)
        from check_verifications_mono [OF m(1)] Cons.IH [OF m(2)] show ?thesis by blast
      qed
    qed
  qed
qed

lemma check_requirements_unresolved:
  "check_requirements reg rs errs = Inr out \<Longrightarrow> req_id \<in> set rs \<Longrightarrow>
   get_entry reg req_id = Inr None \<Longrightarrow> ''INVALID_ID: '' @ req_id @ '' not found'' \<in> set out"
proof (induction rs arbitrary: errs)
  case Nil
  then show ?case by simp
next
  case (Cons a rs)
  show ?case
  proof (cases "a = req_id")
    case True
    with Cons.prems have
      "check_requirements reg rs (errs @ [''INVALID_ID: '' @ req_id @ '' not found'']) = Inr out"
      by simp
    from check_requirements_mono [OF this] show ?thesis by simp
  next
    case False
    with Cons.prems have mem: "req_id \<in> set rs" by simp
    from Cons.prems(1) obtain errs' where "check_requirements reg rs errs' = Inr out"
      by (auto split: sum.splits option.splits if_splits)
    from Cons.IH [OF this mem Cons.prems(3)] show ?thesis .
  qed
qed

lemma check_requirements_returns:
  "\<forall>req_id\<in>set rs. \<exists>x. get_entry reg req_id = Inr x \<and>
      (\<forall>req. x = Some req \<longrightarrow> (\<forall>v_id\<in>set (links req ''V''). \<exists>y. get_entry reg v_id = Inr y)) \<Longrightarrow>
   \<exists>out. check_requirements reg rs errs = Inr out"
proof (induction rs arbitrary: errs)
  case Nil
  show ?case by simp
next
  case (Cons req_id rs)
  then obtain x where x: "get_entry reg req_id = Inr x"
      "\<forall>req. x = Some req \<longrightarrow> (\<forall>v_id\<in>set (links req ''V''). \<exists>y. get_entry reg v_id = Inr y)"
    by auto
  have rest: "\<And>errs'. \<exists>out. check_requirements reg rs errs' = Inr out"
    using Cons by simp
  show ?case
  proof (cases x)
    case None
    with x rest show ?thesis by simp
  next
    case (Some req)
    with x(2) obtain mid where "check_verifications reg (links req ''V'') errs = Inr mid"
      using check_verifications_returns by blast
    with Some x(1) rest show ?thesis by simp
  qed
qed

lemma check_requirements_raises:
  "req_id \<in> set rs \<Longrightarrow> get_entry reg req_id = Inl e \<Longrightarrow>
   \<exists>e'. check_requirements reg rs errs = Inl e'"
proof (induction rs arbitrary: errs)
  case Nil
  then show ?case by simp
next
  case (Cons a rs)
  show ?case
  proof (cases "a = req_id")
    case True
    with Cons.prems show ?thesis by simp
  next
    case False
    with Cons.prems have "\<And>errs'. \<exists>e'. check_requirements reg rs errs' = Inl e'"
      using Cons.IH by simp
    then show ?thesis
      by (auto split: sum.splits option.splits)
  qed
qed

text \<open>
  Claim C2, as the code has it. Take a Feature that resolves. If no lookup on the
  traversal raises (every requirement link resolves or is absent, and so does every
  Verification of a resolved Requirement), chain validation returns a result, and for
  every requirement link that is absent it holds the error \<^verbatim>\<open>INVALID_ID\<close> for that id: the
  traversal goes on after an absent link. If the lookup of some requirement link
  raises, chain validation raises too; \<^verbatim>\<open>validate_traceability_chain\<close> has no handler, the
  consistency validator that calls it has one.
\<close>

theorem chain_requirement_links:
  assumes feat: "get_entry reg feat_id = Inr (Some feat)"
  shows "((\<forall>req_id\<in>set (requirement_links feat).
             \<exists>x. get_entry reg req_id = Inr x \<and>
               (\<forall>req. x = Some req \<longrightarrow>
                  (\<forall>v_id\<in>set (links req ''V''). \<exists>y. get_entry reg v_id = Inr y))) \<longrightarrow>
          (\<exists>r. validate_traceability_chain reg feat_id = Inr r \<and>
             (\<forall>req_id\<in>set (requirement_links feat).
                get_entry reg req_id = Inr None \<longrightarrow>
                  ''INVALID_ID: '' @ req_id @ '' not found'' \<in> set (chain_errors r)))) \<and>
         (\<forall>req_id\<in>set (requirement_links feat).
            \<forall>e. get_entry reg req_id = Inl e \<longrightarrow>
              (\<exists>e'. validate_traceability_chain reg feat_id = Inl e'))"
proof (intro conjI impI ballI allI)
  assume ok: "\<forall>req_id\<in>set (requirement_links feat).
             \<exists>x. get_entry reg req_id = Inr x \<and>
               (\<forall>req. x = Some req \<longrightarrow>
                  (\<forall>v_id\<in>set (links req ''V''). \<exists>y. get_entry reg v_id = Inr y))"
  then obtain out where
    out: "check_requirements reg (requirement_links feat) (feature_errors feat_id feat) = Inr out"
    using check_requirements_returns by blast
  let ?r = "\<lparr>chain_valid = (length out = 0), chain_errors = out,
              chain_warnings = feature_warnings feat_id feat\<rparr>"
  have "validate_traceability_chain reg feat_id = Inr ?r"
    using feat out by (simp add: validate_traceability_chain_def)
  moreover have "\<forall>req_id\<in>set (requirement_links feat).
                get_entry reg req_id = Inr None \<longrightarrow>
                  ''INVALID_ID: '' @ req_id @ '' not found'' \<in> set (chain_errors ?r)"
    using check_requirements_unresolved [OF out] by simp
  ultimately show "\<exists>r. validate_traceability_chain reg feat_id = Inr r \<and>
             (\<forall>req_id\<in>set (requirement_links feat).
                get_entry reg req_id = Inr None \<longrightarrow>
                  ''INVALID_ID: '' @ req_id @ '' not found'' \<in> set (chain_errors r))"
    by blast
next
  fix req_id e
  assume "req_id \<in> set (requirement_links feat)" "get_entry reg req_id = Inl e"
  then obtain e' where
    "check_requirements reg (requirement_links feat) (feature_errors feat_id feat) = Inl e'"
    using check_requirements_raises by blast
  then show "\<exists>e'. validate_traceability_chain reg feat_id = Inl e'"
    using feat by (simp add: validate_traceability_chain_def)
qed

theorem chain_requirement_links_witness:
  "(\<exists>r. validate_traceability_chain (sample_registry [''FR-AUTH-404'', ''FR-AUTH-001''] ''Planned'')
          ''FEAT-AUTH-001'' = Inr r \<and>
        ''INVALID_ID: FR-AUTH-404 not found'' \<in> set (chain_errors r)) \<and>
   (\<exists>e'. validate_traceability_chain
            (sample_registry [''0a1b2c3d-0000-4000-8000-000000000003''] ''Planned'')
            ''FEAT-AUTH-001'' = Inl e')"
proof
  let ?reg = "sample_registry [''FR-AUTH-404'', ''FR-AUTH-001''] ''Planned''"
  let ?feat = "parse_entry (sample_feature_page [''FR-AUTH-404'', ''FR-AUTH-001'']) ''FEAT''"
  have ok: "\<forall>req_id\<in>set (requirement_links ?feat).
             \<exists>x. get_entry ?reg req_id = Inr x \<and>
               (\<forall>req. x = Some req \<longrightarrow>
                  (\<forall>v_id\<in>set (links req ''V''). \<exists>y. get_entry ?reg v_id = Inr y))"
    by (simp add: sample_feature_links sample_get_missing sample_get_requirement
        sample_requirement_links sample_get_verification)
  show "\<exists>r. validate_traceability_chain ?reg ''FEAT-AUTH-001'' = Inr r \<and>
        ''INVALID_ID: FR-AUTH-404 not found'' \<in> set (chain_errors r)"
  proof -
    from chain_requirement_links [OF sample_get_feature, of "[''FR-AUTH-404'', ''FR-AUTH-001'']"
        "''Planned''"] ok
    obtain r where r: "validate_traceability_chain ?reg ''FEAT-AUTH-001'' = Inr r"
        "\<forall>req_id\<in>set (requirement_links ?feat).
           get_entry ?reg req_id = Inr None \<longrightarrow>
             ''INVALID_ID: '' @ req_id @ '' not found'' \<in> set (chain_errors r)"
      by blast
    from r(2) have "''INVALID_ID: FR-AUTH-404 not found'' \<in> set (chain_errors r)"
      by (simp add: sample_feature_links sample_get_missing)
    with r(1) show ?thesis by blast
  qed
next
  show "\<exists>e'. validate_traceability_chain
            (sample_registry [''0a1b2c3d-0000-4000-8000-000000000003''] ''Planned'')
            ''FEAT-AUTH-001'' = Inl e'"
    using chain_requirement_links [OF sample_get_feature,
        of "[''0a1b2c3d-0000-4000-8000-000000000003'']" "''Planned''"]
    by (simp add: sample_feature_links sample_get_page_id)
qed

text \<open>
  A requirement link whose type prefix is no configured collection: \<^verbatim>\<open>get_entry\<close> raises
  \<^verbatim>\<open>NotionError\<close> and the exception leaves \<^verbatim>\<open>validate_traceability_chain\<close>.
\<close>

theorem chain_exception_escapes:
  "validate_traceability_chain
     (sample_registry [''0a1b2c3d-0000-4000-8000-000000000003''] ''Planned'') ''FEAT-AUTH-001'' =
   Inl (NotionError (''Unknown ID type: 0a1b2c3d'' @ [CHR 0x0A] @
          ''Please add 0a1b2c3d database ID to configuration.''))"
  by (simp add: validate_traceability_chain_def sample_get_feature sample_feature_links
      sample_get_page_id)

section \<open>Exclusion by pattern\<close>

text \<open>
  Claim C3. The two validators do not agree on exclusion. For the pattern \<^verbatim>\<open>src/*.py\<close>
  and a symbol of the file \<^verbatim>\<open>src/api/handlers.py\<close> the coverage validator, which uses
  \<^verbatim>\<open>fnmatch\<close>, lets \<^verbatim>\<open>*\<close> run across the separator and excludes the symbol; the orphan
  validator, which uses \<^verbatim>\<open>Path.match\<close>, does not. For the pattern \<^verbatim>\<open>**/__init__.py\<close> and
  the file \<^verbatim>\<open>__init__.py\<close>, the input of the repository's test of exclusion patterns,
  neither validator excludes the symbol.
\<close>

theorem exclusion_validators_disagree:
  "coverage_is_excluded (pattern_manifest ''src/*.py'')
     (class_symbol ''Handler'' ''src/api/handlers.py'') = True \<and>
   orphan_is_excluded (pattern_manifest ''src/*.py'')
     (class_symbol ''Handler'' ''src/api/handlers.py'') = Inr False \<and>
   coverage_is_excluded (pattern_manifest ''**/__init__.py'')
     (class_symbol ''InitClass'' ''__init__.py'') = False \<and>
   orphan_is_excluded (pattern_manifest ''**/__init__.py'')
     (class_symbol ''InitClass'' ''__init__.py'') = Inr False"
  by code_simp

section \<open>Coverage\<close>

lemma check_mappings_fields:
  "distinct mapped \<Longrightarrow>
   (case check_mappings sm ms (errs, invs, mapped) of
      (errs', invs', mapped') \<Rightarrow>
        distinct mapped' \<and> set mapped' = set mapped \<union> (path ` set ms \<inter> sm))"
proof (induction ms arbitrary: errs invs mapped)
  case Nil
  then show ?case by simp
next
  case (Cons mp ms)
  show ?case
  proof (cases "path mp \<in> sm")
    case False
    with Cons.IH [OF Cons.prems, where errs = "errs @ [orphan_manifest_error mp]"
        and invs = "invs @ [path mp]"]
    show ?thesis by (auto split: prod.splits)
  next
    case True
    let ?m = "if path mp \<in> set mapped then mapped else mapped @ [path mp]"
    have "distinct ?m" using Cons.prems by simp
    from Cons.IH [OF this, where errs = errs and invs = invs] True
    show ?thesis by (auto split: prod.splits if_splits)
  qed
qed

lemma validate_coverage_mapped:
  "mapped_symbols (validate_coverage m syms) =
     card (get_symbol_paths m \<inter> set (map qualified_path syms))"
proof -
  obtain e i mp where c:
    "check_mappings (set (map qualified_path syms)) (symbols m) ([], [], []) = (e, i, mp)"
    by (cases "check_mappings (set (map qualified_path syms)) (symbols m) ([], [], [])") auto
  from check_mappings_fields [where mapped = "[]" and sm = "set (map qualified_path syms)"
      and ms = "symbols m" and errs = "[]" and invs = "[]"] c
  have d: "distinct mp" and s: "set mp = path ` set (symbols m) \<inter> set (map qualified_path syms)"
    by auto
  have "mapped_symbols (validate_coverage m syms) = length mp"
    using c by (simp add: validate_coverage_def Let_def split: prod.splits)
  also have "\<dots> = card (set mp)"
    using d by (simp add: distinct_card)
  finally show ?thesis
    using s by (simp add: get_symbol_paths_def)
qed

lemma validate_coverage_total:
  "total_symbols (validate_coverage m syms) = length (filter should_check_symbol syms)"
  by (simp add: validate_coverage_def Let_def split: prod.splits)

lemma validate_coverage_percentage:
  "coverage_percentage (validate_coverage m syms) =
     (if total_symbols (validate_coverage m syms) > 0
      then real (mapped_symbols (validate_coverage m syms)) /
           real (total_symbols (validate_coverage m syms)) * 100
      else 0)"
  by (simp add: validate_coverage_def Let_def split: prod.splits)

text \<open>
  Claim C4. The coverage percentage is the number of distinct manifest paths that are
  the qualified path of some parsed symbol, divided by the number of checkable parsed
  symbols, times 100, and it is 0 when no parsed symbol is checkable (arithmetic is
  exact here; the rounding of Python's floats is not modelled). Listing every mapping of
  the manifest twice does not change the number of mapped symbols. For one symbol that
  is not checkable the percentage is 0.
\<close>

theorem coverage_percentage_formula:
  "coverage_percentage (validate_coverage m syms) =
     (if length (filter should_check_symbol syms) = 0 then 0
      else real (card (get_symbol_paths m \<inter> set (map qualified_path syms))) /
           real (length (filter should_check_symbol syms)) * 100) \<and>
   mapped_symbols (validate_coverage (m\<lparr>symbols := symbols m @ symbols m\<rparr>) syms) =
     mapped_symbols (validate_coverage m syms) \<and>
   coverage_percentage (validate_coverage m [class_symbol ''_private'' ''test.py'']) = 0"
proof (intro conjI)
  show "coverage_percentage (validate_coverage m syms) =
     (if length (filter should_check_symbol syms) = 0 then 0
      else real (card (get_symbol_paths m \<inter> set (map qualified_path syms))) /
           real (length (filter should_check_symbol syms)) * 100)"
    unfolding validate_coverage_percentage validate_coverage_mapped validate_coverage_total
    by simp
  show "mapped_symbols (validate_coverage (m\<lparr>symbols := symbols m @ symbols m\<rparr>) syms) =
     mapped_symbols (validate_coverage m syms)"
    by (simp add: validate_coverage_mapped get_symbol_paths_def)
  show "coverage_percentage (validate_coverage m [class_symbol ''_private'' ''test.py'']) = 0"
    unfolding validate_coverage_percentage validate_coverage_total
    by (simp add: should_check_symbol_def class_symbol_def startswith_def)
qed

lemma full_coverage_total: "total_symbols (validate_coverage full_coverage_manifest full_coverage_symbols) = 1"
  unfolding validate_coverage_total by code_simp

lemma full_coverage_mapped: "mapped_symbols (validate_coverage full_coverage_manifest full_coverage_symbols) = 2"
  unfolding validate_coverage_def by code_simp

text \<open>
  Claim C10. The number of mapped symbols counts every distinct manifest path that is
  the qualified path of a parsed symbol, checkable or not, while the total counts the
  checkable symbols only. For the manifest and symbols of the repository's full-coverage
  test, where one of the two mapped symbols is named \<^verbatim>\<open>test_function\<close>, the coverage
  percentage is 200.
\<close>

theorem coverage_above_hundred:
  "mapped_symbols (validate_coverage m syms) =
     card (get_symbol_paths m \<inter> set (map qualified_path syms)) \<and>
   total_symbols (validate_coverage m syms) = length (filter should_check_symbol syms) \<and>
   coverage_percentage (validate_coverage full_coverage_manifest full_coverage_symbols) = 200 \<and>
   100 < coverage_percentage (validate_coverage full_coverage_manifest full_coverage_symbols)"
proof -
  have "coverage_percentage (validate_coverage full_coverage_manifest full_coverage_symbols) = 200"
    unfolding validate_coverage_percentage full_coverage_total full_coverage_mapped by simp
  then show ?thesis
    by (simp add: validate_coverage_mapped validate_coverage_total)
qed

section \<open>Orphan detection\<close>

lemma should_check_implies_orphan_check:
  "should_check_symbol s \<Longrightarrow> orphan_should_check_symbol s"
  by (auto simp: should_check_symbol_def orphan_should_check_symbol_def split: if_splits)

lemma path_match_returns:
  assumes "snd (parse_parts p) \<noteq> []"
  shows "\<not> isl (path_match fp p)"
proof -
  obtain pr pp where pp: "parse_parts p = (pr, pp)" by (cases "parse_parts p")
  obtain fr fpp where fpp: "parse_parts fp = (fr, fpp)" by (cases "parse_parts fp")
  from assms pp have "pp \<noteq> []" by simp
  with pp fpp show ?thesis by (simp add: path_match_def)
qed

lemma any_path_match_returns:
  "\<forall>p\<in>set ps. snd (parse_parts p) \<noteq> [] \<Longrightarrow> \<not> isl (any_path_match fp ps)"
proof (induction ps)
  case Nil
  show ?case by simp
next
  case (Cons p ps)
  then have "\<not> isl (path_match fp p)" using path_match_returns by simp
  then obtain b where "path_match fp p = Inr b"
    by (cases "path_match fp p") auto
  moreover have "\<not> isl (any_path_match fp ps)"
    using Cons by simp
  ultimately show ?case by (cases b) simp_all
qed

lemma orphan_is_excluded_returns:
  "\<forall>p\<in>set (patterns (manifest_exclusions m)). snd (parse_parts p) \<noteq> [] \<Longrightarrow>
   \<not> isl (orphan_is_excluded m s)"
  using any_path_match_returns [of "patterns (manifest_exclusions m)" "file_path s"]
  by (cases "is_excluded m (qualified_path s)") (simp_all add: orphan_is_excluded_def)

lemma find_orphan_code_returns:
  "\<forall>p\<in>set (patterns (manifest_exclusions m)). snd (parse_parts p) \<noteq> [] \<Longrightarrow>
   \<not> isl (find_orphan_code m syms acc)"
proof (induction syms arbitrary: acc)
  case Nil
  show ?case by simp
next
  case (Cons s syms)
  obtain b where b: "orphan_is_excluded m s = Inr b"
    using orphan_is_excluded_returns [OF Cons.prems, of s]
    by (cases "orphan_is_excluded m s") auto
  have "\<And>acc'. \<not> isl (find_orphan_code m syms acc')"
    using Cons by simp
  with b show ?case by (cases acc) simp
qed

lemma find_orphan_code_paths:
  "find_orphan_code m syms (oc, sg) = Inr (oc', sg') \<Longrightarrow>
   map oc_path oc' =
     map oc_path oc @
     map qualified_path
       (filter (\<lambda>s. qualified_path s \<notin> get_symbol_paths m \<and>
                     orphan_is_excluded m s = Inr False \<and> orphan_should_check_symbol s) syms)"
proof (induction syms arbitrary: oc sg)
  case Nil
  then show ?case by simp
next
  case (Cons s syms)
  show ?case
  proof (cases "qualified_path s \<in> get_symbol_paths m")
    case True
    with Cons.prems have "find_orphan_code m syms (oc, sg) = Inr (oc', sg')" by simp
    from Cons.IH [OF this] True show ?thesis by simp
  next
    case False
    with Cons.prems obtain b where b: "orphan_is_excluded m s = Inr b"
      by (auto split: sum.splits)
    show ?thesis
    proof (cases "\<not> b \<and> orphan_should_check_symbol s")
      case True
      with False b Cons.prems have
        "find_orphan_code m syms
           (oc @ [\<lparr>oc_path = qualified_path s, oc_type = sym_type s,
                     oc_file = file_path s, oc_line = line_start s\<rparr>],
            sg @ [\<lparr>sg_orphan = qualified_path s, sg_type = ''code'',
                     sg_suggestion = generate_manifest_snippet s\<rparr>]) = Inr (oc', sg')"
        by simp
      from Cons.IH [OF this] True False b show ?thesis by simp
    next
      case nt: False
      with False b Cons.prems have "find_orphan_code m syms (oc, sg) = Inr (oc', sg')"
        by auto
      from Cons.IH [OF this] nt False b show ?thesis by auto
    qed
  qed
qed

lemma find_orphan_manifest_entries:
  "fst (find_orphan_manifest cm parsed ms (om, sg)) =
     om @ map (\<lambda>mp. \<lparr>om_path = path mp, om_ids = ids mp\<rparr>)
            (filter (\<lambda>mp. path mp \<notin> set (map qualified_path parsed)) ms)"
  by (induction ms arbitrary: om sg) simp_all

lemma detect_orphans_fields:
  assumes "detect_orphans cm m syms = Inr r"
  shows "map oc_path (orphan_code r) =
           map qualified_path
             (filter (\<lambda>s. qualified_path s \<notin> get_symbol_paths m \<and>
                           orphan_is_excluded m s = Inr False \<and> orphan_should_check_symbol s) syms)"
    and "orphan_manifest r =
           map (\<lambda>mp. \<lparr>om_path = path mp, om_ids = ids mp\<rparr>)
             (filter (\<lambda>mp. path mp \<notin> set (map qualified_path syms)) (symbols m))"
proof -
  from assms obtain oc sg where f: "find_orphan_code m syms ([], []) = Inr (oc, sg)"
    by (auto simp: detect_orphans_def split: sum.splits)
  with assms have r: "orphan_code r = oc"
      "orphan_manifest r = fst (find_orphan_manifest cm syms (symbols m) ([], sg))"
    by (auto simp: detect_orphans_def Let_def split: prod.splits)
  from find_orphan_code_paths [OF f] r(1)
  show "map oc_path (orphan_code r) =
           map qualified_path
             (filter (\<lambda>s. qualified_path s \<notin> get_symbol_paths m \<and>
                           orphan_is_excluded m s = Inr False \<and> orphan_should_check_symbol s) syms)"
    by simp
  from r(2) show "orphan_manifest r =
           map (\<lambda>mp. \<lparr>om_path = path mp, om_ids = ids mp\<rparr>)
             (filter (\<lambda>mp. path mp \<notin> set (map qualified_path syms)) (symbols m))"
    by (simp add: find_orphan_manifest_entries)
qed

lemma detect_orphans_returns:
  assumes "\<forall>p\<in>set (patterns (manifest_exclusions m)). snd (parse_parts p) \<noteq> []"
  shows "\<exists>r. detect_orphans cm m syms = Inr r"
proof -
  obtain out where "find_orphan_code m syms ([], []) = Inr out"
    using find_orphan_code_returns [OF assms, of syms "([], [])"]
    by (cases "find_orphan_code m syms ([], [])") auto
  then show ?thesis
    by (cases out) (simp add: detect_orphans_def Let_def split: prod.splits)
qed

text \<open>
  Claim C5. Orphan detection returns a result whenever every exclusion pattern has at
  least one path component (\<^verbatim>\<open>Path.match\<close> raises on a pattern without one). In every
  result: each parsed symbol that is checkable, not excluded and not among the
  manifest's paths has its qualified path in \<^verbatim>\<open>orphan_code\<close>; each manifest mapping whose
  path is the qualified path of no parsed symbol is in \<^verbatim>\<open>orphan_manifest\<close> with its ids;
  and a path that is both a parsed symbol's and a mapping's is in neither list.
  Checkable is taken in the sense of the coverage validator or of the orphan validator's
  own filter, which is the weaker of the two.
\<close>

theorem orphans_symmetric_complete:
  "((\<forall>p\<in>set (patterns (manifest_exclusions m)). snd (parse_parts p) \<noteq> []) \<longrightarrow>
      (\<exists>r. detect_orphans cm m syms = Inr r)) \<and>
   (\<forall>r. detect_orphans cm m syms = Inr r \<longrightarrow>
      (\<forall>s\<in>set syms.
         (should_check_symbol s \<or> orphan_should_check_symbol s) \<and>
         orphan_is_excluded m s = Inr False \<and>
         qualified_path s \<notin> get_symbol_paths m \<longrightarrow>
           qualified_path s \<in> oc_path ` set (orphan_code r)) \<and>
      (\<forall>mp\<in>set (symbols m).
         path mp \<notin> qualified_path ` set syms \<longrightarrow>
           \<lparr>om_path = path mp, om_ids = ids mp\<rparr> \<in> set (orphan_manifest r)) \<and>
      (\<forall>p. p \<in> qualified_path ` set syms \<and> p \<in> get_symbol_paths m \<longrightarrow>
           p \<notin> oc_path ` set (orphan_code r) \<and> p \<notin> om_path ` set (orphan_manifest r)))"
proof (intro conjI impI allI)
  assume "\<forall>p\<in>set (patterns (manifest_exclusions m)). snd (parse_parts p) \<noteq> []"
  then show "\<exists>r. detect_orphans cm m syms = Inr r"
    by (rule detect_orphans_returns)
next
  fix r
  assume r: "detect_orphans cm m syms = Inr r"
  have oc: "oc_path ` set (orphan_code r) =
      qualified_path ` {s \<in> set syms. qualified_path s \<notin> get_symbol_paths m \<and>
         orphan_is_excluded m s = Inr False \<and> orphan_should_check_symbol s}"
  proof -
    have "oc_path ` set (orphan_code r) = set (map oc_path (orphan_code r))" by simp
    also have "\<dots> = qualified_path ` {s \<in> set syms. qualified_path s \<notin> get_symbol_paths m \<and>
         orphan_is_excluded m s = Inr False \<and> orphan_should_check_symbol s}"
      unfolding detect_orphans_fields(1) [OF r] by simp
    finally show ?thesis .
  qed
  have om: "set (orphan_manifest r) =
      (\<lambda>mp. \<lparr>om_path = path mp, om_ids = ids mp\<rparr>) `
        {mp \<in> set (symbols m). path mp \<notin> qualified_path ` set syms}"
    unfolding detect_orphans_fields(2) [OF r] by simp
  show "\<forall>s\<in>set syms.
         (should_check_symbol s \<or> orphan_should_check_symbol s) \<and>
         orphan_is_excluded m s = Inr False \<and>
         qualified_path s \<notin> get_symbol_paths m \<longrightarrow>
           qualified_path s \<in> oc_path ` set (orphan_code r)"
    unfolding oc using should_check_implies_orphan_check by blast
  show "\<forall>mp\<in>set (symbols m).
         path mp \<notin> qualified_path ` set syms \<longrightarrow>
           \<lparr>om_path = path mp, om_ids = ids mp\<rparr> \<in> set (orphan_manifest r)"
    unfolding om by blast
  fix p
  assume p: "p \<in> qualified_path ` set syms \<and> p \<in> get_symbol_paths m"
  show "p \<notin> oc_path ` set (orphan_code r)"
    unfolding oc using p by auto
  show "p \<notin> om_path ` set (orphan_manifest r)"
  proof
    assume "p \<in> om_path ` set (orphan_manifest r)"
    then have "p \<in> path ` {mp \<in> set (symbols m). path mp \<notin> qualified_path ` set syms}"
      unfolding om by (simp add: image_image)
    with p show False by auto
  qed
qed

lemma orphans_sample_facts:
  "patterns (manifest_exclusions orphans_manifest) = []"
  "orphan_should_check_symbol (class_symbol ''OrphanClass'' ''test.py'')"
  "orphan_is_excluded orphans_manifest (class_symbol ''OrphanClass'' ''test.py'') = Inr False"
  "qualified_path (class_symbol ''OrphanClass'' ''test.py'') = ''test.py::OrphanClass''"
  "qualified_path (class_symbol ''MappedClass'' ''test.py'') = ''test.py::MappedClass''"
  "get_symbol_paths orphans_manifest = {''test.py::MappedClass'', ''test.py::MissingClass''}"
  "symbols orphans_manifest =
     [\<lparr>path = ''test.py::MappedClass'', mapping_type = ''class'', ids = [''FEAT-001'']\<rparr>,
      \<lparr>path = ''test.py::MissingClass'', mapping_type = ''class'', ids = [''FEAT-002'']\<rparr>]"
  by (simp_all add: orphans_manifest_def empty_manifest_def class_symbol_def
      orphan_should_check_symbol_def startswith_def orphan_is_excluded_def is_excluded_def
      qualified_path_def get_symbol_paths_def)

theorem orphans_symmetric_complete_witness:
  "\<exists>r. detect_orphans (\<lambda>p ps. []) orphans_manifest orphans_symbols = Inr r \<and>
     ''test.py::OrphanClass'' \<in> oc_path ` set (orphan_code r) \<and>
     \<lparr>om_path = ''test.py::MissingClass'', om_ids = [''FEAT-002'']\<rparr> \<in> set (orphan_manifest r) \<and>
     ''test.py::MappedClass'' \<notin> oc_path ` set (orphan_code r) \<and>
     ''test.py::MappedClass'' \<notin> om_path ` set (orphan_manifest r)"
proof -
  note t = orphans_symmetric_complete [of orphans_manifest "\<lambda>p ps. []" orphans_symbols]
  from t obtain r where r: "detect_orphans (\<lambda>p ps. []) orphans_manifest orphans_symbols = Inr r"
    by (auto simp: orphans_sample_facts)
  with t have a: "\<forall>s\<in>set orphans_symbols.
         (should_check_symbol s \<or> orphan_should_check_symbol s) \<and>
         orphan_is_excluded orphans_manifest s = Inr False \<and>
         qualified_path s \<notin> get_symbol_paths orphans_manifest \<longrightarrow>
           qualified_path s \<in> oc_path ` set (orphan_code r)"
    and b: "\<forall>mp\<in>set (symbols orphans_manifest).
         path mp \<notin> qualified_path ` set orphans_symbols \<longrightarrow>
           \<lparr>om_path = path mp, om_ids = ids mp\<rparr> \<in> set (orphan_manifest r)"
    and c: "\<forall>p. p \<in> qualified_path ` set orphans_symbols \<and> p \<in> get_symbol_paths orphans_manifest \<longrightarrow>
           p \<notin> oc_path ` set (orphan_code r) \<and> p \<notin> om_path ` set (orphan_manifest r)"
    by blast+
  from a have "''test.py::OrphanClass'' \<in> oc_path ` set (orphan_code r)"
    by (simp add: orphans_symbols_def orphans_sample_facts)
  moreover from b have
    "\<lparr>om_path = ''test.py::MissingClass'', om_ids = [''FEAT-002'']\<rparr> \<in> set (orphan_manifest r)"
    by (simp add: orphans_symbols_def orphans_sample_facts)
  moreover from c have "''test.py::MappedClass'' \<notin> oc_path ` set (orphan_code r) \<and>
      ''test.py::MappedClass'' \<notin> om_path ` set (orphan_manifest r)"
    by (simp add: orphans_symbols_def orphans_sample_facts)
  ultimately show ?thesis using r by blast
qed

section \<open>Consistency validation\<close>

lemma validate_consistency_errors:
  "errors (validate_consistency m reg) =
     concat (map (\<lambda>(id_type, id_str). check_id reg id_type id_str) (referenced_pairs m)) @
     concat (map (\<lambda>f. fst (check_feature reg f)) (features m))"
  by (simp add: validate_consistency_def Let_def comp_def)

lemma validate_consistency_warnings:
  "warnings (validate_consistency m reg) =
     concat (map (\<lambda>f. snd (check_feature reg f)) (features m))"
  by (simp add: validate_consistency_def Let_def comp_def)

lemma check_id_in_errors:
  "(t, i) \<in> set (referenced_pairs m) \<Longrightarrow> x \<in> set (check_id reg t i) \<Longrightarrow>
   x \<in> set (errors (validate_consistency m reg))"
  unfolding validate_consistency_errors by force

lemma check_feature_in_errors:
  "f \<in> set (features m) \<Longrightarrow> x \<in> set (fst (check_feature reg f)) \<Longrightarrow>
   x \<in> set (errors (validate_consistency m reg))"
  unfolding validate_consistency_errors by force

lemma check_feature_in_warnings:
  "f \<in> set (features m) \<Longrightarrow> x \<in> set (snd (check_feature reg f)) \<Longrightarrow>
   x \<in> set (warnings (validate_consistency m reg))"
  unfolding validate_consistency_warnings by force

lemma consistency_manifest_facts:
  "referenced_pairs consistency_manifest =
     [(''bad'', ''bad''), (''BR'', ''BR-AUTH-001''), (''FR'', ''FR-AUTH-404''),
      (''FEAT'', ''FEAT-AUTH-001'')]"
  "features consistency_manifest =
     [\<lparr>feature_id = ''FEAT-AUTH-001'', description = ''Login'',
       business_requirements = [], user_requirements = [], call_flows = []\<rparr>]"
  "\<not> validate_id_format ''bad''"
  "validate_id_format ''BR-AUTH-001''"
  "validate_id_format ''FR-AUTH-404''"
  "message_code ''VALIDATION_WARNING'' ''MISSING_CF: FEAT-AUTH-001 has no Call Flow'' = ''MISSING_CF''"
  by code_simp+

lemma sample_get_unconfigured:
  "get_entry (sample_registry fr_ids st) ''BR-AUTH-001'' =
     Inl (NotionError (''Unknown ID type: BR'' @ [CHR 0x0A] @
            ''Please add BR database ID to configuration.''))"
  by (simp add: get_entry_def extract_id_type_eq sample_registry_def)

lemma sample_chain_raises:
  "validate_traceability_chain
     (sample_registry [''0a1b2c3d-0000-4000-8000-000000000003''] st) ''FEAT-AUTH-001'' =
   Inl (NotionError (''Unknown ID type: 0a1b2c3d'' @ [CHR 0x0A] @
          ''Please add 0a1b2c3d database ID to configuration.''))"
  by (simp add: validate_traceability_chain_def sample_get_feature sample_feature_links
      sample_get_page_id)

lemma sample_chain_complete:
  "validate_traceability_chain (sample_registry [''FR-AUTH-001''] ''Planned'') ''FEAT-AUTH-001'' =
     Inr \<lparr>chain_valid = True, chain_errors = [],
          chain_warnings = [''MISSING_CF: FEAT-AUTH-001 has no Call Flow'']\<rparr>"
proof -
  have "list_ex (linked (parse_entry (sample_feature_page [''FR-AUTH-001'']) ''FEAT''))
      requirement_types"
    by (rule requirement_links_linked) (simp add: sample_feature_links)
  then have "feature_errors ''FEAT-AUTH-001''
      (parse_entry (sample_feature_page [''FR-AUTH-001'']) ''FEAT'') = []"
    by (simp add: feature_errors_def sample_feature_links)
  moreover have "verification_errors ''V-AUTH-001''
      (parse_entry (sample_verification_page ''Planned'') ''V'') = []"
    by (simp add: verification_errors_def is_verified_def sample_verification_links lower_Planned)
  ultimately show ?thesis
    by (simp add: validate_traceability_chain_def sample_get_feature sample_feature_links
        feature_warnings_def sample_get_requirement sample_requirement_links
        linked_iff_links [of _ "''V''"] sample_get_verification)
qed

text \<open>
  Claim C6. The consistency validator is a total function of the manifest and the
  registry, also for a registry whose lookups raise: every call that can raise stands in
  a handler that turns the exception into an entry of the result. The result is valid
  exactly when its error list is empty, so warnings do not affect validity. For a
  referenced id of invalid format the outcome is the one \<^verbatim>\<open>INVALID_FORMAT\<close> error whatever
  the registry holds; for an id of valid format whose lookup raises, and for one that is
  absent, it is an \<^verbatim>\<open>INVALID_ID\<close> error; for a declared Feature whose chain validation
  raises it is a \<^verbatim>\<open>VALIDATION_ERROR\<close> error; and the errors and warnings of a chain
  validation that returns are passed on with the Feature's id.
\<close>

theorem consistency_always_returns:
  "valid (validate_consistency m reg) = (errors (validate_consistency m reg) = []) \<and>
   ((t, i) \<in> set (referenced_pairs m) \<and> \<not> validate_id_format i \<longrightarrow>
      check_id reg t i =
        [\<lparr>code = ''INVALID_FORMAT'', message = ''Invalid ID format: '' @ i,
          entry_ref = Some i, entry_ref_type = None, feature = None\<rparr>] \<and>
      \<lparr>code = ''INVALID_FORMAT'', message = ''Invalid ID format: '' @ i,
       entry_ref = Some i, entry_ref_type = None, feature = None\<rparr>
        \<in> set (errors (validate_consistency m reg))) \<and>
   ((t, i) \<in> set (referenced_pairs m) \<and> validate_id_format i \<and> get_entry reg i = Inl e \<longrightarrow>
      \<lparr>code = ''INVALID_ID'', message = ''Error checking ID '' @ i @ '': '' @ exn_str e,
       entry_ref = Some i, entry_ref_type = None, feature = None\<rparr>
        \<in> set (errors (validate_consistency m reg))) \<and>
   ((t, i) \<in> set (referenced_pairs m) \<and> validate_id_format i \<and> get_entry reg i = Inr None \<longrightarrow>
      \<lparr>code = ''INVALID_ID'', message = ''ID not found in Notion: '' @ i,
       entry_ref = Some i, entry_ref_type = Some t, feature = None\<rparr>
        \<in> set (errors (validate_consistency m reg))) \<and>
   (f \<in> set (features m) \<and> validate_traceability_chain reg (feature_id f) = Inl e' \<longrightarrow>
      \<lparr>code = ''VALIDATION_ERROR'',
       message = ''Failed to validate traceability chain for '' @ feature_id f @ '': '' @
                 exn_str e',
       entry_ref = None, entry_ref_type = None, feature = Some (feature_id f)\<rparr>
        \<in> set (errors (validate_consistency m reg))) \<and>
   (f \<in> set (features m) \<and> validate_traceability_chain reg (feature_id f) = Inr cr \<longrightarrow>
      (\<forall>msg\<in>set (chain_errors cr).
         \<lparr>code = message_code ''VALIDATION_ERROR'' msg, message = msg,
          entry_ref = None, entry_ref_type = None, feature = Some (feature_id f)\<rparr>
           \<in> set (errors (validate_consistency m reg))) \<and>
      (\<forall>msg\<in>set (chain_warnings cr).
         \<lparr>code = message_code ''VALIDATION_WARNING'' msg, message = msg,
          entry_ref = None, entry_ref_type = None, feature = Some (feature_id f)\<rparr>
           \<in> set (warnings (validate_consistency m reg))))"
proof (intro conjI impI ballI)
  show "valid (validate_consistency m reg) = (errors (validate_consistency m reg) = [])"
    by (simp add: validate_consistency_def Let_def)
next
  assume a: "(t, i) \<in> set (referenced_pairs m) \<and> \<not> validate_id_format i"
  then show c: "check_id reg t i =
        [\<lparr>code = ''INVALID_FORMAT'', message = ''Invalid ID format: '' @ i,
          entry_ref = Some i, entry_ref_type = None, feature = None\<rparr>]"
    by (simp add: check_id_def)
  from a show "\<lparr>code = ''INVALID_FORMAT'', message = ''Invalid ID format: '' @ i,
       entry_ref = Some i, entry_ref_type = None, feature = None\<rparr>
        \<in> set (errors (validate_consistency m reg))"
    by (intro check_id_in_errors [of t i]) (simp_all add: c)
next
  assume a: "(t, i) \<in> set (referenced_pairs m) \<and> validate_id_format i \<and> get_entry reg i = Inl e"
  then show "\<lparr>code = ''INVALID_ID'', message = ''Error checking ID '' @ i @ '': '' @ exn_str e,
       entry_ref = Some i, entry_ref_type = None, feature = None\<rparr>
        \<in> set (errors (validate_consistency m reg))"
    by (intro check_id_in_errors [of t i]) (simp_all add: check_id_def)
next
  assume a: "(t, i) \<in> set (referenced_pairs m) \<and> validate_id_format i \<and> get_entry reg i = Inr None"
  then show "\<lparr>code = ''INVALID_ID'', message = ''ID not found in Notion: '' @ i,
       entry_ref = Some i, entry_ref_type = Some t, feature = None\<rparr>
        \<in> set (errors (validate_consistency m reg))"
    by (intro check_id_in_errors [of t i]) (simp_all add: check_id_def)
next
  assume a: "f \<in> set (features m) \<and> validate_traceability_chain reg (feature_id f) = Inl e'"
  then show "\<lparr>code = ''VALIDATION_ERROR'',
       message = ''Failed to validate traceability chain for '' @ feature_id f @ '': '' @
                 exn_str e',
       entry_ref = None, entry_ref_type = None, feature = Some (feature_id f)\<rparr>
        \<in> set (errors (validate_consistency m reg))"
    by (intro check_feature_in_errors [of f]) (simp_all add: check_feature_def Let_def)
next
  fix msg
  assume a: "f \<in> set (features m) \<and> validate_traceability_chain reg (feature_id f) = Inr cr"
    and b: "msg \<in> set (chain_errors cr)"
  then show "\<lparr>code = message_code ''VALIDATION_ERROR'' msg, message = msg,
          entry_ref = None, entry_ref_type = None, feature = Some (feature_id f)\<rparr>
           \<in> set (errors (validate_consistency m reg))"
    by (intro check_feature_in_errors [of f]) (simp_all add: check_feature_def Let_def)
next
  fix msg
  assume a: "f \<in> set (features m) \<and> validate_traceability_chain reg (feature_id f) = Inr cr"
    and b: "msg \<in> set (chain_warnings cr)"
  then show "\<lparr>code = message_code ''VALIDATION_WARNING'' msg, message = msg,
          entry_ref = None, entry_ref_type = None, feature = Some (feature_id f)\<rparr>
           \<in> set (warnings (validate_consistency m reg))"
    by (intro check_feature_in_warnings [of f]) (simp_all add: check_feature_def Let_def)
qed


theorem consistency_always_returns_witness:
  "\<not> valid (validate_consistency consistency_manifest
       (sample_registry [''0a1b2c3d-0000-4000-8000-000000000003''] ''Planned'')) \<and>
   \<lparr>code = ''INVALID_FORMAT'', message = ''Invalid ID format: bad'',
    entry_ref = Some ''bad'', entry_ref_type = None, feature = None\<rparr>
     \<in> set (errors (validate_consistency consistency_manifest
         (sample_registry [''0a1b2c3d-0000-4000-8000-000000000003''] ''Planned''))) \<and>
   \<lparr>code = ''INVALID_ID'',
    message = ''Error checking ID BR-AUTH-001: Unknown ID type: BR'' @ [CHR 0x0A] @
              ''Please add BR database ID to configuration.'',
    entry_ref = Some ''BR-AUTH-001'', entry_ref_type = None, feature = None\<rparr>
     \<in> set (errors (validate_consistency consistency_manifest
         (sample_registry [''0a1b2c3d-0000-4000-8000-000000000003''] ''Planned''))) \<and>
   \<lparr>code = ''INVALID_ID'', message = ''ID not found in Notion: FR-AUTH-404'',
    entry_ref = Some ''FR-AUTH-404'', entry_ref_type = Some ''FR'', feature = None\<rparr>
     \<in> set (errors (validate_consistency consistency_manifest
         (sample_registry [''0a1b2c3d-0000-4000-8000-000000000003''] ''Planned''))) \<and>
   \<lparr>code = ''VALIDATION_ERROR'',
    message = ''Failed to validate traceability chain for FEAT-AUTH-001: '' @
              ''Unknown ID type: 0a1b2c3d'' @ [CHR 0x0A] @
              ''Please add 0a1b2c3d database ID to configuration.'',
    entry_ref = None, entry_ref_type = None, feature = Some ''FEAT-AUTH-001''\<rparr>
     \<in> set (errors (validate_consistency consistency_manifest
         (sample_registry [''0a1b2c3d-0000-4000-8000-000000000003''] ''Planned''))) \<and>
   \<lparr>code = ''MISSING_CF'', message = ''MISSING_CF: FEAT-AUTH-001 has no Call Flow'',
    entry_ref = None, entry_ref_type = None, feature = Some ''FEAT-AUTH-001''\<rparr>
     \<in> set (warnings (validate_consistency consistency_manifest
         (sample_registry [''FR-AUTH-001''] ''Planned'')))"
proof -
  let ?reg = "sample_registry [''0a1b2c3d-0000-4000-8000-000000000003''] ''Planned''"
  let ?f = "\<lparr>feature_id = ''FEAT-AUTH-001'', description = ''Login'',
       business_requirements = [], user_requirements = [], call_flows = []\<rparr>"
  note fmt = consistency_always_returns [of consistency_manifest ?reg "''bad''" "''bad''"]
  note unc = consistency_always_returns [of consistency_manifest ?reg "''BR''" "''BR-AUTH-001''"
      "NotionError (''Unknown ID type: BR'' @ [CHR 0x0A] @
         ''Please add BR database ID to configuration.'')"]
  note mis = consistency_always_returns [of consistency_manifest ?reg "''FR''" "''FR-AUTH-404''"]
  note cha = consistency_always_returns [of consistency_manifest ?reg _ _ _ ?f
      "NotionError (''Unknown ID type: 0a1b2c3d'' @ [CHR 0x0A] @
         ''Please add 0a1b2c3d database ID to configuration.'')"]
  note wrn = consistency_always_returns [of consistency_manifest
      "sample_registry [''FR-AUTH-001''] ''Planned''" _ _ _ ?f _
      "\<lparr>chain_valid = True, chain_errors = [],
        chain_warnings = [''MISSING_CF: FEAT-AUTH-001 has no Call Flow'']\<rparr>"]
  have 1: "\<lparr>code = ''INVALID_FORMAT'', message = ''Invalid ID format: bad'',
    entry_ref = Some ''bad'', entry_ref_type = None, feature = None\<rparr>
     \<in> set (errors (validate_consistency consistency_manifest ?reg))"
    using fmt by (simp add: consistency_manifest_facts)
  have 2: "\<lparr>code = ''INVALID_ID'',
    message = ''Error checking ID BR-AUTH-001: Unknown ID type: BR'' @ [CHR 0x0A] @
              ''Please add BR database ID to configuration.'',
    entry_ref = Some ''BR-AUTH-001'', entry_ref_type = None, feature = None\<rparr>
     \<in> set (errors (validate_consistency consistency_manifest ?reg))"
    using unc by (simp add: consistency_manifest_facts sample_get_unconfigured)
  have 3: "\<lparr>code = ''INVALID_ID'', message = ''ID not found in Notion: FR-AUTH-404'',
    entry_ref = Some ''FR-AUTH-404'', entry_ref_type = Some ''FR'', feature = None\<rparr>
     \<in> set (errors (validate_consistency consistency_manifest ?reg))"
    using mis by (simp add: consistency_manifest_facts sample_get_missing)
  have 4: "\<lparr>code = ''VALIDATION_ERROR'',
    message = ''Failed to validate traceability chain for FEAT-AUTH-001: '' @
              ''Unknown ID type: 0a1b2c3d'' @ [CHR 0x0A] @
              ''Please add 0a1b2c3d database ID to configuration.'',
    entry_ref = None, entry_ref_type = None, feature = Some ''FEAT-AUTH-001''\<rparr>
     \<in> set (errors (validate_consistency consistency_manifest ?reg))"
    using cha by (simp add: consistency_manifest_facts sample_chain_raises)
  have 5: "\<lparr>code = ''MISSING_CF'', message = ''MISSING_CF: FEAT-AUTH-001 has no Call Flow'',
    entry_ref = None, entry_ref_type = None, feature = Some ''FEAT-AUTH-001''\<rparr>
     \<in> set (warnings (validate_consistency consistency_manifest
         (sample_registry [''FR-AUTH-001''] ''Planned'')))"
    using wrn by (simp add: consistency_manifest_facts sample_chain_complete)
  have 0: "\<not> valid (validate_consistency consistency_manifest ?reg)"
    using fmt 1 by auto
  from 0 1 2 3 4 5 show ?thesis by blast
qed

section \<open>Client cache\<close>

text \<open>
  Where the directory permits every operation, the cache behaves as a cache: a payload
  that \<^verbatim>\<open>json.dump\<close> writes in full and \<^verbatim>\<open>json.load\<close> reads back is returned by a read within
  the time to live, and the entry is kept; an expired entry, and one that cannot be
  opened or parsed, give a miss and are removed.
\<close>

lemma cache_round_trip_permitted:
  assumes "cache_enabled c" and "searchable d" and "writable d"
  shows "json_dump p = (written, True) \<Longrightarrow> json_load written = Some p \<Longrightarrow>
         now' - now \<le> cache_ttl c * 1000000 \<Longrightarrow>
           get_cached json_load c now' (set_cached json_dump c now d k p) k =
             Inr (p, set_cached json_dump c now d k p)"
    and "files d k = Some f \<Longrightarrow> now - mtime f > cache_ttl c * 1000000 \<Longrightarrow>
           get_cached json_load c now d k = Inr (JNull, d\<lparr>files := (files d)(k := None)\<rparr>)"
    and "files d k = Some f \<Longrightarrow> now - mtime f \<le> cache_ttl c * 1000000 \<Longrightarrow>
         \<not> readable f \<or> json_load (content f) = None \<Longrightarrow>
           get_cached json_load c now d k = Inr (JNull, d\<lparr>files := (files d)(k := None)\<rparr>)"
  using assms by (auto simp: get_cached_def set_cached_def path_exists_def unlink_def)

text \<open>
  The read raises exactly when caching is enabled and either the directory refuses the
  lookup, or the entry is there, is to be removed (expired, unreadable or unparsable) and
  the directory refuses the removal.
\<close>

lemma get_cached_raises_iff:
  "isl (get_cached json_load c now d k) \<longleftrightarrow>
     cache_enabled c \<and>
     (\<not> searchable d \<or>
      (\<not> writable d \<and>
       (\<exists>f. files d k = Some f \<and>
          (now - mtime f > cache_ttl c * 1000000 \<or> \<not> readable f \<or>
           json_load (content f) = None))))"
  by (auto simp: get_cached_def path_exists_def unlink_def split: option.splits)

text \<open>
  Claim C9. The claim does not hold of the code in a cache directory that does not
  permit removal (mode 0555). There the read of an entry that cannot be parsed, and the
  read of an expired entry, do not return a miss: \<^verbatim>\<open>unlink\<close> is called outside any handler
  and its \<^verbatim>\<open>PermissionError\<close> leaves \<^verbatim>\<open>_get_cached\<close>.
\<close>

theorem cache_read_raises_on_read_only_directory:
  "get_cached sample_json_load sample_client 1000000 (read_only_cache ''k'' ''[1, '') ''k'' =
     Inl (PermissionError ''k.json'') \<and>
   get_cached sample_json_load sample_client 3600000001 (read_only_cache ''k'' ''[1, 2]'') ''k'' =
     Inl (PermissionError ''k.json'')"
  by (simp add: get_cached_def path_exists_def unlink_def get_cache_path_def sample_client_def
      read_only_cache_def one_file_cache_def sample_json_load_def)

end
